theory Spec2Isabelle
  imports Complex_Main "HOL-Library.AList"
begin

section \<open>Values, errors and dates\<close>

text \<open>
  The accessor of \<^verbatim>\<open>src/medenv/cmems.py\<close> is embedded as pure functions.
  Exceptions are values of the type \<open>error\<close>; a call that mutates the accessor
  or talks to the remote service returns the accessor and the remote state next
  to its result.  Calls to \<^verbatim>\<open>logging\<close> have no effect on any of these; what
  is kept of them is the evaluation of their arguments, where it can raise.
\<close>

text \<open>
  A naive \<^verbatim>\<open>datetime\<close> is represented by the number of microseconds since
  the start of proleptic Gregorian day 0, the representation under which
  Python's comparison of two naive datetimes is the comparison of integers.
  \<open>ymd2ord\<close> follows \<^verbatim>\<open>datetime._ymd2ord\<close> of the standard library; it is
  applied to calendar dates only (the constructor refuses any other month or
  day).
\<close>

type_synonym datetime = int

definition is_leap :: "int \<Rightarrow> bool" where
  "is_leap year \<longleftrightarrow> year mod 4 = 0 \<and> (year mod 100 \<noteq> 0 \<or> year mod 400 = 0)"

definition days_before_year :: "int \<Rightarrow> int" where
  "days_before_year year =
     (let y = year - 1 in y * 365 + y div 4 - y div 100 + y div 400)"

definition days_before_month :: "int \<Rightarrow> int \<Rightarrow> int" where
  "days_before_month year month =
     (if 1 \<le> month \<and> month \<le> 12
      then [-1, 0, 31, 59, 90, 120, 151, 181, 212, 243, 273, 304, 334] ! nat month
      else 0)
     + (if month > 2 \<and> is_leap year then 1 else 0)"

definition ymd2ord :: "int \<Rightarrow> int \<Rightarrow> int \<Rightarrow> int" where
  "ymd2ord year month day = days_before_year year + days_before_month year month + day"

text \<open>\<^verbatim>\<open>datetime.datetime(year, month, day)\<close>, at midnight.\<close>

definition mk_datetime :: "int \<Rightarrow> int \<Rightarrow> int \<Rightarrow> datetime" where
  "mk_datetime year month day = ymd2ord year month day * 86400000000"

text \<open>
  \<^verbatim>\<open>datetime.datetime.strptime(s, "%d-%m-%Y")\<close> for the two strings of the
  registry, given by their day, month and year fields.
\<close>

definition strptime_dmy :: "int \<Rightarrow> int \<Rightarrow> int \<Rightarrow> datetime" where
  "strptime_dmy day month year = mk_datetime year month day"

text \<open>The values stored in a feature descriptor: strings, booleans and datetimes.\<close>

datatype pyval = PStr string | PBool bool | PDate datetime

text \<open>A float is a real number or NaN.\<close>

datatype pyfloat = Fl real | NaN

datatype error =
    KeyError string
  | AttributeError string
  | NameError string
  | TypeError
  | IndexError
  | ValueError_before string pyval
  | ValueError_unknown string
  | ValueError string
  | RuntimeError_login
  | RuntimeError_access

text \<open>
  \<open>ValueError_before what limit\<close> is
  \<^verbatim>\<open>ValueError(f"Cannot get {what} before {params['date_limit']}")\<close>,
  \<open>ValueError_unknown what\<close> is
  \<^verbatim>\<open>ValueError(f"Does not know which dataset to download for the key {what}")\<close>,
  \<open>RuntimeError_access\<close> is
  \<^verbatim>\<open>RuntimeError("Cannot successfully access the dataset")\<close> and
  \<open>RuntimeError_login\<close> is
  \<^verbatim>\<open>RuntimeError("Login to cmems unsucessfull, aborting...")\<close>.
\<close>

text \<open>An argument of a query is a scalar or a two-element tuple.\<close>

datatype 'a arg = Point 'a | Span 'a 'a

text \<open>\<^verbatim>\<open>d[k]\<close> on a dictionary with string keys.\<close>

definition getitem :: "(string \<times> 'v) list \<Rightarrow> string \<Rightarrow> error + 'v" where
  "getitem d k = (case map_of d k of None \<Rightarrow> Inl (KeyError k) | Some v \<Rightarrow> Inr v)"

section \<open>The feature registry\<close>

type_synonym descriptor = "(string \<times> pyval) list"

text \<open>The dictionary literal of one entry of \<^verbatim>\<open>_feature_params\<close>.\<close>

definition descriptor :: "string \<Rightarrow> string \<Rightarrow> string \<Rightarrow> bool \<Rightarrow> datetime \<Rightarrow> descriptor" where
  "descriptor dataset_id variable slice_mode has_depth date_limit =
     [(''dataset_id'', PStr dataset_id),
      (''variable'', PStr variable),
      (''slice_mode'', PStr slice_mode),
      (''has_depth'', PBool has_depth),
      (''date_limit'', PDate date_limit)]"

definition feature_params :: "(string \<times> descriptor) list" where
  "feature_params =
    [(''temperature'',
        descriptor ''med-cmcc-tem-rean-d'' ''thetao'' ''lon-lat'' True (strptime_dmy 1 1 1987)),
     (''salinity'',
        descriptor ''med-cmcc-sal-rean-d'' ''so'' ''lon-lat'' True (strptime_dmy 1 1 1987)),
     (''eastward-water-velocity'',
        descriptor ''med-cmcc-cur-rean-d'' ''uo'' ''lon-lat'' True (strptime_dmy 1 1 1987)),
     (''northward-water-velocity'',
        descriptor ''med-cmcc-cur-rean-d'' ''vo'' ''lon-lat'' True (strptime_dmy 1 1 1987)),
     (''mixed-layer-thickness'',
        descriptor ''med-cmcc-mld-rean-d'' ''mlotst'' ''lon-lat'' False (strptime_dmy 1 1 1987)),
     (''sea-surface-above-geoid'',
        descriptor ''med-cmcc-ssh-rean-d'' ''zos'' ''lon-lat'' False (strptime_dmy 1 1 1987)),
     (''phytoplankton-carbon-biomass'',
        descriptor ''med-ogs-pft-rean-d'' ''phyc'' ''longitude-latitude'' True (strptime_dmy 1 1 1999)),
     (''chlorophyl-a'',
        descriptor ''med-ogs-pft-rean-d'' ''chl'' ''longitude-latitude'' True (strptime_dmy 1 1 1999)),
     (''nitrate'',
        descriptor ''med-ogs-nut-rean-d'' ''no3'' ''longitude-latitude'' True (strptime_dmy 1 1 1999)),
     (''phosphate'',
        descriptor ''med-ogs-nut-rean-d'' ''po4'' ''longitude-latitude'' True (strptime_dmy 1 1 1999)),
     (''ammonium'',
        descriptor ''med-ogs-nut-rean-d'' ''nh4'' ''longitude-latitude'' True (strptime_dmy 1 1 1999)),
     (''net-primary-production'',
        descriptor ''med-ogs-bio-rean-d'' ''nppv'' ''longitude-latitude'' True (strptime_dmy 1 1 1999)),
     (''oxygen'',
        descriptor ''med-ogs-bio-rean-d'' ''o2'' ''longitude-latitude'' True (strptime_dmy 1 1 1999)),
     (''ph'',
        descriptor ''med-ogs-car-rean-d'' ''ph'' ''longitude-latitude'' True (strptime_dmy 1 1 1999)),
     (''dissolved-inorganic-carbon'',
        descriptor ''med-ogs-car-rean-d'' ''dissic'' ''longitude-latitude'' True (strptime_dmy 1 1 1999)),
     (''alkalinity'',
        descriptor ''med-ogs-car-rean-d'' ''talk'' ''longitude-latitude'' True (strptime_dmy 1 1 1999)),
     (''surface-partial-pressure-co2'',
        descriptor ''med-ogs-co2-rean-d'' ''spco2'' ''longitude-latitude'' False (strptime_dmy 1 1 1999)),
     (''surface-co2-flux'',
        descriptor ''med-ogs-co2-rean-d'' ''fpco2'' ''longitude-latitude'' False (strptime_dmy 1 1 1999))]"


section \<open>Arrays and tables of the backend libraries\<close>

text \<open>
  The code hands the selection and the reshaping to \<^verbatim>\<open>xarray\<close> and
  \<^verbatim>\<open>pandas\<close>.  Their objects are represented in long form: an array is the
  list of its grid points, each with its coordinates by name and its value,
  together with the names of its coordinates and of those among them that are
  still dimensions; a table is the list of its rows, each a dictionary from the
  names of the index levels and of the columns to cells.  The operations below
  are the ones \<^verbatim>\<open>f_slice\<close> calls, on indexes sorted in increasing order.
\<close>

type_synonym coords = "(string \<times> real) list"

record dataarray =
  da_name :: string
  da_coords :: "string list"
  da_dims :: "string list"
  da_points :: "(coords \<times> pyfloat) list"

type_synonym dataset = "(string \<times> dataarray) list"

type_synonym row = "(string \<times> pyfloat) list"

record dataframe =
  df_index :: "string list"
  df_columns :: "string list"
  df_rows :: "row list"

datatype result = Table dataframe | Scalar pyfloat

datatype selcoord = Arr "real list" | Nan_coord

text \<open>\<^verbatim>\<open>ds.drop_duplicates(dim=...)\<close>: the first point of each coordinate tuple is kept.\<close>

fun drop_dups :: "coords list \<Rightarrow> (coords \<times> pyfloat) list \<Rightarrow> (coords \<times> pyfloat) list" where
  "drop_dups seen [] = []"
| "drop_dups seen (p # ps) =
     (if fst p \<in> set seen then drop_dups seen ps else p # drop_dups (fst p # seen) ps)"

definition drop_duplicates :: "dataarray \<Rightarrow> dataarray" where
  "drop_duplicates da = da\<lparr>da_points := drop_dups [] (da_points da)\<rparr>"

text \<open>The labels of the points of an array along one coordinate.\<close>

definition labels :: "string \<Rightarrow> dataarray \<Rightarrow> real list" where
  "labels k da = remdups (List.map_filter (\<lambda>p. map_of (fst p) k) (da_points da))"

definition in_slice :: "string \<Rightarrow> real \<Rightarrow> real \<Rightarrow> coords \<times> pyfloat \<Rightarrow> bool" where
  "in_slice k lo hi p = (case map_of (fst p) k of None \<Rightarrow> False | Some x \<Rightarrow> lo \<le> x \<and> x \<le> hi)"

text \<open>
  \<^verbatim>\<open>ds.sel(**slice_coords_definition)\<close>: a label-based slice keeps the labels
  between its two bounds, both included; a key that is not a dimension raises.
\<close>

fun sel_slice :: "dataarray \<Rightarrow> (string \<times> real \<times> real) list \<Rightarrow> error + dataarray" where
  "sel_slice da [] = Inr da"
| "sel_slice da ((k, lo, hi) # kw) =
     (if k \<notin> set (da_dims da) then Inl (KeyError k)
      else sel_slice (da\<lparr>da_points := filter (in_slice k lo hi) (da_points da)\<rparr>) kw)"

text \<open>The label nearest to \<open>q\<close>; of two labels at the same distance, the larger.\<close>

fun nearest :: "real \<Rightarrow> real list \<Rightarrow> real option" where
  "nearest q [] = None"
| "nearest q (l # ls) =
     (case nearest q ls of
        None \<Rightarrow> Some l
      | Some m \<Rightarrow>
          if \<bar>l - q\<bar> < \<bar>m - q\<bar> \<or> (\<bar>l - q\<bar> = \<bar>m - q\<bar> \<and> m \<le> l) then Some l else Some m)"

text \<open>
  \<^verbatim>\<open>values.sel(method="nearest", **points)\<close>: each key is a dimension, which the
  selection of its nearest label turns into a scalar coordinate.
\<close>

fun sel_nearest :: "dataarray \<Rightarrow> (string \<times> real) list \<Rightarrow> error + dataarray" where
  "sel_nearest da [] = Inr da"
| "sel_nearest da ((k, q) # kw) =
     (if k \<notin> set (da_dims da) then Inl (KeyError k)
      else case nearest q (labels k da) of
             None \<Rightarrow> Inl (KeyError k)
           | Some l \<Rightarrow>
               sel_nearest
                 (da\<lparr>da_dims := removeAll k (da_dims da),
                     da_points := filter (\<lambda>p. map_of (fst p) k = Some l) (da_points da)\<rparr>) kw)"

text \<open>
  \<^verbatim>\<open>values.to_dataframe()\<close>: one row per point, indexed by the dimensions, with
  the scalar coordinates and the variable as columns.  An array without any
  dimension is refused by \<^verbatim>\<open>xarray\<close>.
\<close>

definition row_of_point :: "string \<Rightarrow> coords \<times> pyfloat \<Rightarrow> row" where
  "row_of_point name p = map (\<lambda>(k, x). (k, Fl x)) (fst p) @ [(name, snd p)]"

definition to_dataframe :: "dataarray \<Rightarrow> error + dataframe" where
  "to_dataframe da =
     (if da_dims da = [] then Inl (ValueError ''cannot convert a scalar'')
      else Inr \<lparr>df_index = da_dims da,
                df_columns = filter (\<lambda>c. c \<notin> set (da_dims da)) (da_coords da) @ [da_name da],
                df_rows = map (row_of_point (da_name da)) (da_points da)\<rparr>)"

text \<open>\<^verbatim>\<open>df.reset_index(inplace=True)\<close>: the index levels become the first columns.\<close>

definition reset_index :: "dataframe \<Rightarrow> dataframe" where
  "reset_index df = df\<lparr>df_index := [], df_columns := df_index df @ df_columns df\<rparr>"

text \<open>
  \<^verbatim>\<open>df[k] = v\<close>: a scalar fills the column; a tuple is taken as the list of the
  cells of the column and must have as many elements as the table has rows.
\<close>

definition add_column :: "string \<Rightarrow> string list \<Rightarrow> string list" where
  "add_column k cols = (if k \<in> set cols then cols else cols @ [k])"

definition setitem :: "dataframe \<Rightarrow> string \<Rightarrow> real arg \<Rightarrow> error + dataframe" where
  "setitem df k v =
     (case v of
        Point x \<Rightarrow>
          Inr (df\<lparr>df_columns := add_column k (df_columns df),
                  df_rows := map (AList.update k (Fl x)) (df_rows df)\<rparr>)
      | Span a b \<Rightarrow>
          if length (df_rows df) = 2
          then Inr (df\<lparr>df_columns := add_column k (df_columns df),
                       df_rows := map (\<lambda>(x, r). AList.update k (Fl x) r) (zip [a, b] (df_rows df))\<rparr>)
          else Inl (ValueError ''Length of values does not match length of index''))"

text \<open>\<^verbatim>\<open>df.set_index(keys, inplace=True)\<close>: the named columns become the index.\<close>

definition set_index :: "dataframe \<Rightarrow> string list \<Rightarrow> error + dataframe" where
  "set_index df keys =
     (case filter (\<lambda>k. k \<notin> set (df_columns df)) keys of
        k # _ \<Rightarrow> Inl (KeyError k)
      | [] \<Rightarrow> Inr (df\<lparr>df_index := keys,
                      df_columns := filter (\<lambda>c. c \<notin> set keys) (df_columns df)\<rparr>))"

text \<open>\<^verbatim>\<open>df.index.rename(names, inplace=True)\<close>: the levels are renamed by position.\<close>

definition rename_key :: "(string \<times> string) list \<Rightarrow> string \<Rightarrow> string" where
  "rename_key ren k = (case map_of ren k of None \<Rightarrow> k | Some k' \<Rightarrow> k')"

definition rename_index :: "dataframe \<Rightarrow> string list \<Rightarrow> error + dataframe" where
  "rename_index df names =
     (if length names \<noteq> length (df_index df)
      then Inl (ValueError ''Length of names must match number of levels in MultiIndex'')
      else Inr (df\<lparr>df_index := names,
                   df_rows := map (map (\<lambda>(k, c). (rename_key (zip (df_index df) names) k, c)))
                                  (df_rows df)\<rparr>))"

text \<open>The cell of a row under a name; a missing cell reads as NaN.\<close>

definition cell :: "row \<Rightarrow> string \<Rightarrow> pyfloat" where
  "cell r k = (case map_of r k of None \<Rightarrow> NaN | Some c \<Rightarrow> c)"

text \<open>The mean of a column leaves the NaN cells out and is NaN when nothing is left.\<close>

definition mean_skipna :: "pyfloat list \<Rightarrow> pyfloat" where
  "mean_skipna cs =
     (let xs = List.map_filter (\<lambda>c. case c of Fl x \<Rightarrow> Some x | NaN \<Rightarrow> None) cs
      in if xs = [] then NaN else Fl (sum_list xs / of_nat (length xs)))"

text \<open>\<^verbatim>\<open>df.mean().item()\<close>: the series of the column means must have one element.\<close>

definition mean_item :: "dataframe \<Rightarrow> error + pyfloat" where
  "mean_item df =
     (case df_columns df of
        [c] \<Rightarrow> Inr (mean_skipna (map (\<lambda>r. cell r c) (df_rows df)))
      | _ \<Rightarrow> Inl (ValueError ''can only convert an array of size 1 to a Python scalar''))"

text \<open>\<^verbatim>\<open>values.coords[k].to_numpy()\<close>.\<close>

definition coords_to_numpy :: "dataarray \<Rightarrow> string \<Rightarrow> error + selcoord" where
  "coords_to_numpy da k =
     (if k \<in> set (da_coords da) then Inr (Arr (labels k da)) else Inl (KeyError k))"

text \<open>\<^verbatim>\<open>datastore[field]\<close> on an opened dataset.\<close>

definition dataset_getitem :: "dataset \<Rightarrow> pyval \<Rightarrow> error + dataarray" where
  "dataset_getitem ds field =
     (case field of PStr name \<Rightarrow> getitem ds name | _ \<Rightarrow> Inl (KeyError []))"


section \<open>The coordinate slicer\<close>

text \<open>
  \<^verbatim>\<open>f_slice\<close> is local to \<^verbatim>\<open>get_value\<close> and reads its \<^verbatim>\<open>reduction\<close>
  argument; here it takes it as its first argument.  Its body is given in the
  order of the source: the two keys, the two dictionaries of selection
  arguments, the selection, the table, the result and the selected coordinates.
\<close>

text \<open>Truth value of a descriptor value, as \<^verbatim>\<open>if has_depth:\<close> takes it.\<close>

fun truthy :: "pyval \<Rightarrow> bool" where
  "truthy (PBool b) = b"
| "truthy (PStr s) = (s \<noteq> [])"
| "truthy (PDate d) = True"

definition key_lon :: "pyval \<Rightarrow> string" where
  "key_lon mode = (if mode = PStr ''lon-lat'' then ''lon'' else ''longitude'')"

definition key_lat :: "pyval \<Rightarrow> string" where
  "key_lat mode = (if mode = PStr ''lon-lat'' then ''lat'' else ''latitude'')"

text \<open>A datetime as a label of the time axis.\<close>

definition time_label :: "datetime \<Rightarrow> real" where
  "time_label d = real_of_int d"

definition slice_coords_definition ::
  "pyval \<Rightarrow> datetime arg \<Rightarrow> real arg \<times> real arg \<Rightarrow> real arg \<Rightarrow> pyval
     \<Rightarrow> (string \<times> real \<times> real) list" where
  "slice_coords_definition mode date long_lat depth has_depth =
     (case fst long_lat of Span a b \<Rightarrow> [(key_lon mode, a, b)] | Point x \<Rightarrow> [])
     @ (case snd long_lat of Span a b \<Rightarrow> [(key_lat mode, a, b)] | Point x \<Rightarrow> [])
     @ (if truthy has_depth
        then (case depth of Span a b \<Rightarrow> [(''depth'', a, b)] | Point x \<Rightarrow> [])
        else [])
     @ (case date of Span a b \<Rightarrow> [(''time'', time_label a, time_label b)] | Point x \<Rightarrow> [])"

text \<open>
  The entries of \<^verbatim>\<open>noslice_coords_definition\<close> other than
  \<^verbatim>\<open>"method": "nearest"\<close>, which \<open>sel_nearest\<close> stands for.
\<close>

definition noslice_coords_definition ::
  "pyval \<Rightarrow> datetime arg \<Rightarrow> real arg \<times> real arg \<Rightarrow> real arg \<Rightarrow> pyval
     \<Rightarrow> (string \<times> real) list" where
  "noslice_coords_definition mode date long_lat depth has_depth =
     (case fst long_lat of Span a b \<Rightarrow> [] | Point x \<Rightarrow> [(key_lon mode, x)])
     @ (case snd long_lat of Span a b \<Rightarrow> [] | Point x \<Rightarrow> [(key_lat mode, x)])
     @ (if truthy has_depth
        then (case depth of Span a b \<Rightarrow> [] | Point x \<Rightarrow> [(''depth'', x)])
        else [])
     @ (case date of Span a b \<Rightarrow> [] | Point x \<Rightarrow> [(''time'', time_label x)])"

text \<open>Lines 261 to 265: the selected array \<^verbatim>\<open>values\<close>.\<close>

definition f_slice_values ::
  "dataarray \<Rightarrow> pyval \<Rightarrow> datetime arg \<Rightarrow> real arg \<times> real arg \<Rightarrow> real arg \<Rightarrow> pyval
     \<Rightarrow> error + dataarray" where
  "f_slice_values ds mode date long_lat depth has_depth =
     (case sel_slice (drop_duplicates ds)
             (slice_coords_definition mode date long_lat depth has_depth) of
        Inl e \<Rightarrow> Inl e
      | Inr values \<Rightarrow>
          sel_nearest values (noslice_coords_definition mode date long_lat depth has_depth))"

text \<open>Lines 268 to 287: the table \<^verbatim>\<open>df_values\<close>.\<close>

definition f_slice_table :: "dataarray \<Rightarrow> pyval \<Rightarrow> real arg \<Rightarrow> pyval \<Rightarrow> error + dataframe" where
  "f_slice_table values mode depth has_depth =
     (case to_dataframe values of
        Inl e \<Rightarrow> Inl e
      | Inr df0 \<Rightarrow>
          (case (if \<not> truthy has_depth then setitem (reset_index df0) ''depth'' depth
                 else Inr (reset_index df0)) of
             Inl e \<Rightarrow> Inl e
           | Inr df1 \<Rightarrow>
               (case set_index df1 [''time'', key_lon mode, key_lat mode, ''depth''] of
                  Inl e \<Rightarrow> Inl e
                | Inr df2 \<Rightarrow>
                    rename_index df2 [''time'', ''longitude'', ''latitude'', ''depth''])))"

text \<open>Lines 288 to 291: the result.\<close>

definition f_slice_result :: "string option \<Rightarrow> dataframe \<Rightarrow> error + result" where
  "f_slice_result reduction df_values =
     (if reduction = Some ''mean''
      then (case mean_item df_values of Inl e \<Rightarrow> Inl e | Inr m \<Rightarrow> Inr (Scalar m))
      else Inr (Table df_values))"

text \<open>Lines 293 to 300: the dictionary \<^verbatim>\<open>selected_coordinates\<close>.\<close>

definition selected_coordinates ::
  "dataarray \<Rightarrow> pyval \<Rightarrow> pyval \<Rightarrow> error + (string \<times> selcoord) list" where
  "selected_coordinates values mode has_depth =
     (case coords_to_numpy values ''time'' of
        Inl e \<Rightarrow> Inl e
      | Inr t \<Rightarrow>
          (case coords_to_numpy values (key_lon mode) of
             Inl e \<Rightarrow> Inl e
           | Inr lon \<Rightarrow>
               (case coords_to_numpy values (key_lat mode) of
                  Inl e \<Rightarrow> Inl e
                | Inr lat \<Rightarrow>
                    (case (if truthy has_depth then coords_to_numpy values ''depth''
                           else Inr Nan_coord) of
                       Inl e \<Rightarrow> Inl e
                     | Inr d \<Rightarrow>
                         Inr [(''time'', t), (key_lon mode, lon), (key_lat mode, lat),
                              (''depth'', d)]))))"

definition f_slice ::
  "string option \<Rightarrow> dataarray \<Rightarrow> pyval \<Rightarrow> datetime arg \<Rightarrow> real arg \<times> real arg \<Rightarrow> real arg
     \<Rightarrow> pyval \<Rightarrow> error + result \<times> (string \<times> selcoord) list" where
  "f_slice reduction ds mode date long_lat depth has_depth =
     (case f_slice_values ds mode date long_lat depth has_depth of
        Inl e \<Rightarrow> Inl e
      | Inr values \<Rightarrow>
          (case f_slice_table values mode depth has_depth of
             Inl e \<Rightarrow> Inl e
           | Inr df_values \<Rightarrow>
               (case f_slice_result reduction df_values of
                  Inl e \<Rightarrow> Inl e
                | Inr result \<Rightarrow>
                    (case selected_coordinates values mode has_depth of
                       Inl e \<Rightarrow> Inl e
                     | Inr sel \<Rightarrow> Inr (result, sel)))))"

section \<open>The accessor and the dataset connector\<close>

text \<open>
  The instance attributes \<^verbatim>\<open>fetch\<close> reads.  An attribute that was never
  assigned is \<open>None\<close>; reading it raises \<^verbatim>\<open>AttributeError\<close>.
\<close>

record cmems =
  datastores :: "pyval \<rightharpoonup> dataset"
  session :: "unit option"
  num_retries :: "int option"

text \<open>
  What lies outside the accessor.  \<open>open_url\<close> is the binding of the
  module-level name \<^verbatim>\<open>open_url\<close>: \<open>None\<close> when the name is unbound, as in the
  module as it is written, which does not import it.  When it is bound to
  \<open>f\<close>, \<open>f url k\<close> is the outcome of the body of the \<^verbatim>\<open>try\<close> block at
  the call number \<open>k\<close> of the connector: the data store, or \<open>None\<close> when
  \<^verbatim>\<open>open_url\<close> or \<^verbatim>\<open>PydapDataStore\<close> raises.  \<open>open_calls\<close> counts the
  calls of the connector and \<open>open_dataset\<close> is \<^verbatim>\<open>xr.open_dataset\<close>.
\<close>

type_synonym url = "pyval \<times> pyval"

record remote =
  open_url :: "(url \<Rightarrow> nat \<Rightarrow> dataset option) option"
  open_calls :: nat
  open_dataset :: "dataset \<Rightarrow> error + dataset"

text \<open>
  \<^verbatim>\<open>CMEMS.__init__\<close>, after the credentials have been read: \<open>logged_in\<close> is
  what \<^verbatim>\<open>copernicusmarine.login\<close> returned.  The only attribute it assigns
  is \<^verbatim>\<open>datastores\<close>.
\<close>

definition init :: "int \<Rightarrow> bool \<Rightarrow> error + cmems" where
  "init num_retries_arg logged_in =
     (if \<not> logged_in then Inl RuntimeError_login
      else Inr \<lparr>datastores = Map.empty, session = None, num_retries = None\<rparr>)"

text \<open>
  The body of the \<^verbatim>\<open>try\<close> block.  The name \<^verbatim>\<open>open_url\<close> and the attribute
  \<^verbatim>\<open>self.session\<close> are evaluated before the call; the bare \<^verbatim>\<open>except\<close>
  catches their failure like any other.
\<close>

definition try_open :: "cmems \<Rightarrow> url \<Rightarrow> remote \<Rightarrow> dataset option \<times> remote" where
  "try_open self u w =
     (case open_url w of
        None \<Rightarrow> (None, w)
      | Some f \<Rightarrow>
          (case session self of
             None \<Rightarrow> (None, w)
           | Some s \<Rightarrow> (f u (open_calls w), w\<lparr>open_calls := Suc (open_calls w)\<rparr>)))"

text \<open>The \<^verbatim>\<open>while True\<close> loop of \<^verbatim>\<open>fetch\<close>, from the value of \<^verbatim>\<open>retries\<close>.\<close>

function fetch_loop :: "cmems \<Rightarrow> url \<Rightarrow> remote \<Rightarrow> int \<Rightarrow> (error + dataset) \<times> remote" where
  "fetch_loop self u w retries =
     (case try_open self u w of
        (Some data_store, w') \<Rightarrow> (Inr data_store, w')
      | (None, w') \<Rightarrow>
          (case num_retries self of
             None \<Rightarrow> (Inl (AttributeError ''num_retries''), w')
           | Some n \<Rightarrow>
               if retries + 1 \<ge> n then (Inl RuntimeError_access, w')
               else fetch_loop self u w' (retries + 1)))"
  by pat_completeness auto
termination
  by (relation "measure (\<lambda>(self, u, w, retries).
        case num_retries self of None \<Rightarrow> 0 | Some n \<Rightarrow> nat (n - retries))") auto

declare fetch_loop.simps [simp del]

definition fetch ::
  "cmems \<Rightarrow> remote \<Rightarrow> pyval \<Rightarrow> pyval \<Rightarrow> (error + dataset) \<times> cmems \<times> remote" where
  "fetch self w prefix_dataset dataset =
     (case datastores self dataset of
        Some h \<Rightarrow> (Inr h, self, w)
      | None \<Rightarrow>
          (case fetch_loop self (prefix_dataset, dataset) w 0 of
             (Inl e, w') \<Rightarrow> (Inl e, self, w')
           | (Inr data_store, w') \<Rightarrow>
               (case open_dataset w' data_store of
                  Inl e \<Rightarrow> (Inl e, self, w')
                | Inr h \<Rightarrow>
                    (Inr h, self\<lparr>datastores := (datastores self)(dataset \<mapsto> h)\<rparr>, w'))))"

section \<open>The query\<close>

text \<open>\<^verbatim>\<open>d < params["date_limit"]\<close>: a datetime is ordered with a datetime only.\<close>

definition date_lt :: "datetime \<Rightarrow> pyval \<Rightarrow> error + bool" where
  "date_lt d v = (case v of PDate l \<Rightarrow> Inr (d < l) | _ \<Rightarrow> Inl TypeError)"

text \<open>The date the test of lines 308 to 310 compares with the limit.\<close>

fun first_date :: "datetime arg \<Rightarrow> datetime" where
  "first_date (Point d) = d"
| "first_date (Span d0 d1) = d0"

type_synonym outcome = "(error + result \<times> (string \<times> selcoord) list) \<times> cmems \<times> remote"

definition get_value ::
  "cmems \<Rightarrow> remote \<Rightarrow> datetime arg \<Rightarrow> real arg \<times> real arg \<Rightarrow> real arg \<Rightarrow> string
     \<Rightarrow> string option \<Rightarrow> outcome" where
  "get_value self w date long_lat depth what reduction =
     (case map_of feature_params what of
        None \<Rightarrow> (Inl (ValueError_unknown what), self, w)
      | Some params \<Rightarrow>
          (case getitem params ''date_limit'' of
             Inl e \<Rightarrow> (Inl e, self, w)
           | Inr limit \<Rightarrow>
               (case date_lt (first_date date) limit of
                  Inl e \<Rightarrow> (Inl e, self, w)
                | Inr True \<Rightarrow> (Inl (ValueError_before what limit), self, w)
                | Inr False \<Rightarrow>
                    (case getitem params ''prefix'' of
                       Inl e \<Rightarrow> (Inl e, self, w)
                     | Inr prefix \<Rightarrow>
                         (case getitem params ''dataset'' of
                            Inl e \<Rightarrow> (Inl e, self, w)
                          | Inr dataset \<Rightarrow>
                              (case fetch self w prefix dataset of
                                 (Inl e, self', w') \<Rightarrow> (Inl e, self', w')
                               | (Inr datastore, self', w') \<Rightarrow>
                                   (case getitem params ''field'' of
                                      Inl e \<Rightarrow> (Inl e, self', w')
                                    | Inr field \<Rightarrow>
                                        (case dataset_getitem datastore field of
                                           Inl e \<Rightarrow> (Inl e, self', w')
                                         | Inr ds \<Rightarrow>
                                             (case getitem params ''slice_mode'' of
                                                Inl e \<Rightarrow> (Inl e, self', w')
                                              | Inr mode \<Rightarrow>
                                                  (case getitem params ''has_depth'' of
                                                     Inl e \<Rightarrow> (Inl e, self', w')
                                                   | Inr has_depth \<Rightarrow>
                                                       (f_slice reduction ds mode date long_lat
                                                          depth has_depth, self', w')))))))))))"

section \<open>Notions used in the statements\<close>

text \<open>
  An array is well formed for a slice mode when its dimensions are coordinates,
  its coordinates are among time, depth and the longitude and latitude under
  the names of the mode,
  every point has a value for each coordinate, and the name of the variable is
  not the name of a coordinate or of an index level.
\<close>

definition well_formed :: "pyval \<Rightarrow> dataarray \<Rightarrow> bool" where
  "well_formed mode da \<longleftrightarrow>
     set (da_dims da) \<subseteq> set (da_coords da)
     \<and> set (da_coords da) \<subseteq> {''time'', key_lon mode, key_lat mode, ''depth''}
     \<and> da_name da \<notin> {''time'', ''lon'', ''lat'', ''longitude'', ''latitude'', ''depth''}
     \<and> (\<forall>p \<in> set (da_points da). map fst (fst p) = da_coords da)"

text \<open>
  The row that lines 268 to 287 make of a point: \<open>d\<close> is the cell written
  into the column \<^verbatim>\<open>depth\<close>, if one is written.
\<close>

definition table_row :: "pyval \<Rightarrow> string \<Rightarrow> real option \<Rightarrow> coords \<times> pyfloat \<Rightarrow> row" where
  "table_row mode name d p =
     map (\<lambda>(k, c). (rename_key (zip [''time'', key_lon mode, key_lat mode, ''depth'']
                                    [''time'', ''longitude'', ''latitude'', ''depth'']) k, c))
       (case d of None \<Rightarrow> row_of_point name p
        | Some x \<Rightarrow> AList.update ''depth'' (Fl x) (row_of_point name p))"

text \<open>
  The cells written into the column \<^verbatim>\<open>depth\<close> of a table of \<open>n\<close> rows
  by line 278, which runs for a dataset without depth axis.
\<close>

definition depth_cells :: "pyval \<Rightarrow> real arg \<Rightarrow> nat \<Rightarrow> real option list" where
  "depth_cells has_depth depth n =
     (if truthy has_depth then replicate n None
      else case depth of Point x \<Rightarrow> replicate n (Some x) | Span a b \<Rightarrow> [Some a, Some b])"

text \<open>The coordinate of a point as a cell.\<close>

definition coord_cell :: "coords \<times> pyfloat \<Rightarrow> string \<Rightarrow> pyfloat" where
  "coord_cell p k = (case map_of (fst p) k of None \<Rightarrow> NaN | Some x \<Rightarrow> Fl x)"

section \<open>Sample inputs\<close>

text \<open>
  Two small arrays, one of a dataset without depth axis, an accessor whose
  attributes \<^verbatim>\<open>session\<close> and \<^verbatim>\<open>num_retries\<close> have been assigned, and a stub
  connector that fails a given number of times before it succeeds.
\<close>

definition sample_mlotst :: dataarray where
  "sample_mlotst =
     \<lparr>da_name = ''mlotst'',
      da_coords = [''time'', ''lat'', ''lon''],
      da_dims = [''time'', ''lat'', ''lon''],
      da_points =
        [([(''time'', 0), (''lat'', 40), (''lon'', -5)], Fl 1),
         ([(''time'', 0), (''lat'', 40), (''lon'', 5)], Fl 2),
         ([(''time'', 0), (''lat'', 40), (''lon'', 8)], NaN),
         ([(''time'', 0), (''lat'', 40), (''lon'', 15)], Fl 4),
         ([(''time'', 0), (''lat'', 41), (''lon'', -5)], Fl 10),
         ([(''time'', 0), (''lat'', 41), (''lon'', 5)], Fl 20),
         ([(''time'', 0), (''lat'', 41), (''lon'', 8)], Fl 30),
         ([(''time'', 0), (''lat'', 41), (''lon'', 15)], Fl 40)]\<rparr>"

definition sample_chl :: dataarray where
  "sample_chl =
     \<lparr>da_name = ''chl'',
      da_coords = [''time'', ''depth'', ''latitude'', ''longitude''],
      da_dims = [''time'', ''depth'', ''latitude'', ''longitude''],
      da_points =
        [([(''time'', 0), (''depth'', 1), (''latitude'', 43), (''longitude'', 13)], Fl 3),
         ([(''time'', 0), (''depth'', 1), (''latitude'', 43), (''longitude'', 14)], Fl 5),
         ([(''time'', 0), (''depth'', 10), (''latitude'', 43), (''longitude'', 13)], Fl 1),
         ([(''time'', 0), (''depth'', 10), (''latitude'', 43), (''longitude'', 14)], Fl 2)]\<rparr>"

definition stub_accessor :: cmems where
  "stub_accessor = \<lparr>datastores = Map.empty, session = Some (), num_retries = Some 3\<rparr>"

definition stub_open_url :: "nat \<Rightarrow> url \<Rightarrow> nat \<Rightarrow> dataset option" where
  "stub_open_url failures u k = (if k < failures then None else Some [(''mlotst'', sample_mlotst)])"

definition stub_remote :: "nat \<Rightarrow> remote" where
  "stub_remote failures =
     \<lparr>open_url = Some (stub_open_url failures), open_calls = 0, open_dataset = Inr\<rparr>"


section \<open>The registry\<close>

lemma registered_descriptor:
  assumes "map_of feature_params what = Some params"
  shows "\<exists>i v m h d. params = descriptor i v m h d \<and> i \<noteq> [] \<and> v \<noteq> []"
proof -
  define P where "P = (\<lambda>p. \<exists>i v m h d. p = descriptor i v m h d \<and> i \<noteq> [] \<and> v \<noteq> [])"
  have I: "\<And>i v m h d. i \<noteq> [] \<Longrightarrow> v \<noteq> [] \<Longrightarrow> P (descriptor i v m h d)"
    unfolding P_def by blast
  have "\<forall>p \<in> set (map snd feature_params). P p"
    unfolding feature_params_def by (simp add: I)
  moreover from assms have "(what, params) \<in> set feature_params" by (rule map_of_SomeD)
  then have "params \<in> set (map snd feature_params)" by force
  ultimately have "P params" by blast
  then show ?thesis unfolding P_def .
qed

lemma distinct_feature_names: "distinct (map fst feature_params)"
  unfolding feature_params_def by simp

lemma getitem_descriptor:
  "getitem (descriptor i v m h d) ''date_limit'' = Inr (PDate d)"
  "getitem (descriptor i v m h d) ''prefix'' = Inl (KeyError ''prefix'')"
  "getitem (descriptor i v m h d) ''dataset'' = Inl (KeyError ''dataset'')"
  "getitem (descriptor i v m h d) ''field'' = Inl (KeyError ''field'')"
  by (simp_all add: getitem_def descriptor_def)

lemma descriptor_keys:
  "map fst (descriptor i v m h d) = [''dataset_id'', ''variable'', ''slice_mode'', ''has_depth'', ''date_limit'']"
  by (simp add: descriptor_def)

lemma registered_keys:
  assumes "map_of feature_params what = Some params"
  shows "map fst params = [''dataset_id'', ''variable'', ''slice_mode'', ''has_depth'', ''date_limit'']"
  using registered_descriptor [OF assms] by (auto simp: descriptor_keys)

section \<open>Registry lookup and date check of the query\<close>

text \<open>
  Every descriptor has the five keys of \<open>registered_keys\<close> and no other.
  With the descriptors as they are, a query on a registered feature whose date
  is not before the limit stops at \<^verbatim>\<open>params["prefix"]\<close>, before the
  connector is called.
\<close>

lemma get_value_registered_key_error:
  assumes "map_of feature_params what = Some params"
    and "getitem params ''date_limit'' = Inr (PDate limit)"
    and "\<not> first_date date < limit"
  shows "get_value self w date long_lat depth what reduction = (Inl (KeyError ''prefix''), self, w)"
proof -
  from assms(1) obtain i v m h d where p: "params = descriptor i v m h d"
    using registered_descriptor by blast
  with assms(2) have "d = limit" by (simp add: getitem_descriptor)
  with p assms(1,3) show ?thesis
    by (simp add: get_value_def getitem_descriptor date_lt_def)
qed

text \<open>
  C1.  The claim: for a registered feature and a date at or after its validity
  start, the keys \<^verbatim>\<open>prefix\<close>, \<^verbatim>\<open>dataset\<close> and \<^verbatim>\<open>field\<close>, which no
  descriptor has, are coerced and \<^verbatim>\<open>get_value\<close> goes on to call the
  connector.  The code: the query of \<^verbatim>\<open>examples/example-cmems-001.py\<close> raises
  \<^verbatim>\<open>KeyError('prefix')\<close> and leaves the accessor and the remote state as they
  were, so the connector is not called.
\<close>

theorem get_value_temperature_key_error:
  "get_value self w (Point (mk_datetime 2020 7 31)) (Point (-2.95), Point 35.32) (Point 8.3)
     ''temperature'' None = (Inl (KeyError ''prefix''), self, w)"
proof (rule get_value_registered_key_error)
  show "map_of feature_params ''temperature'' =
          Some (descriptor ''med-cmcc-tem-rean-d'' ''thetao'' ''lon-lat'' True (strptime_dmy 1 1 1987))"
    by (simp add: feature_params_def)
  show "getitem (descriptor ''med-cmcc-tem-rean-d'' ''thetao'' ''lon-lat'' True (strptime_dmy 1 1 1987))
          ''date_limit'' = Inr (PDate (strptime_dmy 1 1 1987))"
    by (simp add: getitem_descriptor)
  show "\<not> first_date (Point (mk_datetime 2020 7 31)) < strptime_dmy 1 1 1987"
    by (simp add: strptime_dmy_def mk_datetime_def ymd2ord_def days_before_year_def
          days_before_month_def is_leap_def)
qed

text \<open>
  C3.  Every registered feature has a validity start, and a query whose date
  (the scalar, or the first element of the range) is before it fails with
  the error "cannot get the feature before the limit"; the accessor and the
  remote state, with its count of connector calls, are returned unchanged.
\<close>

theorem get_value_before_date_limit:
  assumes "map_of feature_params what = Some params"
  shows "\<exists>limit. getitem params ''date_limit'' = Inr (PDate limit) \<and>
           (first_date date < limit \<longrightarrow>
              get_value self w date long_lat depth what reduction =
                (Inl (ValueError_before what (PDate limit)), self, w))"
proof -
  from assms obtain i v m h d where p: "params = descriptor i v m h d"
    using registered_descriptor by blast
  have "getitem params ''date_limit'' = Inr (PDate d)"
    by (simp add: p getitem_descriptor)
  moreover have "first_date date < d \<longrightarrow>
      get_value self w date long_lat depth what reduction =
        (Inl (ValueError_before what (PDate d)), self, w)"
    using assms by (simp add: get_value_def p getitem_descriptor date_lt_def)
  ultimately show ?thesis by blast
qed

theorem get_value_before_date_limit_witness:
  "map_of feature_params ''nitrate'' =
     Some (descriptor ''med-ogs-nut-rean-d'' ''no3'' ''longitude-latitude'' True (strptime_dmy 1 1 1999))
   \<and> first_date (Point (mk_datetime 1998 12 31)) < strptime_dmy 1 1 1999
   \<and> get_value stub_accessor (stub_remote 0) (Point (mk_datetime 1998 12 31))
         (Point 13.63, Point 43.55) (Point 6) ''nitrate'' None =
       (Inl (ValueError_before ''nitrate'' (PDate (strptime_dmy 1 1 1999))), stub_accessor, stub_remote 0)"
proof -
  have found: "map_of feature_params ''nitrate'' =
      Some (descriptor ''med-ogs-nut-rean-d'' ''no3'' ''longitude-latitude'' True (strptime_dmy 1 1 1999))"
    by (simp add: feature_params_def)
  have before: "first_date (Point (mk_datetime 1998 12 31)) < strptime_dmy 1 1 1999"
    by (simp add: strptime_dmy_def mk_datetime_def ymd2ord_def days_before_year_def
          days_before_month_def is_leap_def)
  from get_value_before_date_limit [OF found, of "Point (mk_datetime 1998 12 31)" stub_accessor "stub_remote 0"
      "(Point 13.63, Point 43.55)" "Point 6" None]
  obtain limit where l: "getitem (descriptor ''med-ogs-nut-rean-d'' ''no3'' ''longitude-latitude'' True
        (strptime_dmy 1 1 1999)) ''date_limit'' = Inr (PDate limit)"
    and r: "first_date (Point (mk_datetime 1998 12 31)) < limit \<longrightarrow>
       get_value stub_accessor (stub_remote 0) (Point (mk_datetime 1998 12 31))
         (Point 13.63, Point 43.55) (Point 6) ''nitrate'' None =
         (Inl (ValueError_before ''nitrate'' (PDate limit)), stub_accessor, stub_remote 0)"
    by blast
  from l have "limit = strptime_dmy 1 1 1999" by (simp add: getitem_descriptor)
  with r before found show ?thesis by simp
qed

text \<open>
  C4.  A name that is not in the registry fails with the unknown-feature
  error, the accessor and the remote state unchanged; for a name that is in
  the registry the lookup yields its descriptor (dataset identifier, variable,
  slice mode, depth flag, date limit) and the query does not fail with the
  unknown-feature error.
\<close>

theorem get_value_registry_lookup:
  "(what \<notin> fst ` set feature_params \<longrightarrow>
      get_value self w date long_lat depth what reduction = (Inl (ValueError_unknown what), self, w))
   \<and> (\<forall>params. (what, params) \<in> set feature_params \<longrightarrow>
         map_of feature_params what = Some params
         \<and> (\<exists>i v m h d. params = descriptor i v m h d \<and> i \<noteq> [] \<and> v \<noteq> [])
         \<and> fst (get_value self w date long_lat depth what reduction) \<noteq> Inl (ValueError_unknown what))"
proof (intro conjI impI allI)
  assume "what \<notin> fst ` set feature_params"
  then have "map_of feature_params what = None" by (simp add: map_of_eq_None_iff)
  then show "get_value self w date long_lat depth what reduction =
               (Inl (ValueError_unknown what), self, w)"
    by (simp add: get_value_def)
next
  fix params assume "(what, params) \<in> set feature_params"
  then show found: "map_of feature_params what = Some params"
    using distinct_feature_names by simp
  then show "\<exists>i v m h d. params = descriptor i v m h d \<and> i \<noteq> [] \<and> v \<noteq> []"
    by (rule registered_descriptor)
  then obtain i v m h d where p: "params = descriptor i v m h d" by blast
  show "fst (get_value self w date long_lat depth what reduction) \<noteq> Inl (ValueError_unknown what)"
    using found by (cases "first_date date < d") (simp_all add: get_value_def p getitem_descriptor date_lt_def)
qed

theorem get_value_registry_lookup_witness:
  "get_value stub_accessor (stub_remote 0) (Point (mk_datetime 2012 9 22))
       (Point 13.63, Point 43.55) (Point 6) ''bathymetry'' None =
     (Inl (ValueError_unknown ''bathymetry''), stub_accessor, stub_remote 0)
   \<and> map_of feature_params ''salinity'' =
       Some (descriptor ''med-cmcc-sal-rean-d'' ''so'' ''lon-lat'' True (strptime_dmy 1 1 1987))
   \<and> fst (get_value stub_accessor (stub_remote 0) (Point (mk_datetime 2012 9 22))
       (Point 13.63, Point 43.55) (Point 6) ''salinity'' None)
       \<noteq> Inl (ValueError_unknown ''salinity'')"
proof -
  have absent: "''bathymetry'' \<notin> fst ` set feature_params"
    by (simp add: feature_params_def)
  have present: "(''salinity'',
      descriptor ''med-cmcc-sal-rean-d'' ''so'' ''lon-lat'' True (strptime_dmy 1 1 1987))
        \<in> set feature_params"
    by (simp add: feature_params_def)
  from absent present
    get_value_registry_lookup [of "''bathymetry''" stub_accessor "stub_remote 0"
      "Point (mk_datetime 2012 9 22)" "(Point 13.63, Point 43.55)" "Point 6" None]
    get_value_registry_lookup [of "''salinity''" stub_accessor "stub_remote 0"
      "Point (mk_datetime 2012 9 22)" "(Point 13.63, Point 43.55)" "Point 6" None]
  show ?thesis by blast
qed

section \<open>The retry loop and the cache\<close>

lemma try_open_unbound:
  "session self = None \<or> open_url w = None \<Longrightarrow> try_open self u w = (None, w)"
  by (auto simp: try_open_def split: option.splits)

lemma try_open_bound:
  "open_url w = Some f \<Longrightarrow> session self = Some s \<Longrightarrow>
   try_open self u w = (f u (open_calls w), w\<lparr>open_calls := Suc (open_calls w)\<rparr>)"
  by (simp add: try_open_def)

lemma fetch_loop_no_attribute:
  "num_retries self = None \<Longrightarrow> session self = None \<or> open_url w = None \<Longrightarrow>
   fetch_loop self u w retries = (Inl (AttributeError ''num_retries''), w)"
  by (subst fetch_loop.simps) (simp add: try_open_unbound)

lemma fetch_loop_success_after_failures:
  assumes "open_url w = Some f" and "session self = Some s" and "num_retries self = Some n"
    and "\<forall>k < m. f u (open_calls w + k) = None"
    and "f u (open_calls w + m) = Some h"
    and "retries + int m < n"
  shows "fetch_loop self u w retries = (Inr h, w\<lparr>open_calls := open_calls w + m + 1\<rparr>)"
  using assms
proof (induction m arbitrary: w retries)
  case 0
  then show ?case
    by (subst fetch_loop.simps) (simp add: try_open_bound)
next
  case (Suc m)
  let ?w = "w\<lparr>open_calls := Suc (open_calls w)\<rparr>"
  from Suc.prems(4) have first: "f u (open_calls w) = None" by force
  have "fetch_loop self u ?w (retries + 1) = (Inr h, ?w\<lparr>open_calls := open_calls ?w + m + 1\<rparr>)"
  proof (rule Suc.IH)
    show "open_url ?w = Some f" using Suc.prems(1) by simp
    show "\<forall>k<m. f u (open_calls ?w + k) = None" using Suc.prems(4) by auto
    show "f u (open_calls ?w + m) = Some h" using Suc.prems(5) by simp
    show "retries + 1 + int m < n" using Suc.prems(6) by simp
  qed (use Suc.prems in simp_all)
  moreover have "\<not> n \<le> retries + 1" using Suc.prems(6) by simp
  ultimately show ?case using Suc.prems(1,2,3) first
    by (subst fetch_loop.simps) (simp add: try_open_bound)
qed

lemma fetch_loop_gives_up:
  assumes "open_url w = Some f" and "session self = Some s" and "num_retries self = Some n"
    and "\<forall>k < Suc m. f u (open_calls w + k) = None"
    and "retries + int (Suc m) \<ge> n" and "retries + int m < n \<or> m = 0"
  shows "fetch_loop self u w retries = (Inl RuntimeError_access, w\<lparr>open_calls := open_calls w + Suc m\<rparr>)"
  using assms
proof (induction m arbitrary: w retries)
  case 0
  then show ?case
    by (subst fetch_loop.simps) (simp add: try_open_bound)
next
  case (Suc m)
  let ?w = "w\<lparr>open_calls := Suc (open_calls w)\<rparr>"
  from Suc.prems(4) have first: "f u (open_calls w) = None" by force
  have "fetch_loop self u ?w (retries + 1) = (Inl RuntimeError_access, ?w\<lparr>open_calls := open_calls ?w + Suc m\<rparr>)"
  proof (rule Suc.IH)
    show "open_url ?w = Some f" using Suc.prems(1) by simp
    show "\<forall>k<Suc m. f u (open_calls ?w + k) = None" using Suc.prems(4) by auto
    show "n \<le> retries + 1 + int (Suc m)" using Suc.prems(5) by simp
    show "retries + 1 + int m < n \<or> m = 0" using Suc.prems(6) by auto
  qed (use Suc.prems in simp_all)
  moreover have "\<not> n \<le> retries + 1" using Suc.prems(6) by simp
  ultimately show ?case using Suc.prems(1,2,3) first
    by (subst fetch_loop.simps) (simp add: try_open_bound)
qed

lemma fetch_cases:
  assumes "fetch self w p d = (r, self', w')"
  shows "(\<exists>h. datastores self d = Some h \<and> r = Inr h \<and> self' = self \<and> w' = w)
       \<or> (\<exists>e. datastores self d = None \<and> r = Inl e \<and> self' = self)
       \<or> (\<exists>h data_store. datastores self d = None \<and> r = Inr h
             \<and> fetch_loop self (p, d) w 0 = (Inr data_store, w')
             \<and> open_dataset w' data_store = Inr h
             \<and> self' = self\<lparr>datastores := (datastores self)(d \<mapsto> h)\<rparr>)"
proof (cases "datastores self d")
  case (Some h)
  with assms have "r = Inr h" "self' = self" "w' = w" by (simp_all add: fetch_def)
  with Some show ?thesis by blast
next
  case None
  obtain r0 w0 where loop: "fetch_loop self (p, d) w 0 = (r0, w0)"
    by (cases "fetch_loop self (p, d) w 0")
  show ?thesis
  proof (cases r0)
    case (Inl e)
    with assms None loop have "r = Inl e" "self' = self" by (simp_all add: fetch_def)
    with None show ?thesis by blast
  next
    case (Inr data_store)
    show ?thesis
    proof (cases "open_dataset w0 data_store")
      case (Inl e)
      with assms None loop Inr have "r = Inl e" "self' = self" by (simp_all add: fetch_def)
      with None show ?thesis by blast
    next
      case opened: (Inr h)
      with assms None loop Inr
      have "r = Inr h" "w' = w0" "self' = self\<lparr>datastores := (datastores self)(d \<mapsto> h)\<rparr>"
        by (simp_all add: fetch_def)
      with None loop Inr opened show ?thesis by blast
    qed
  qed
qed

lemma stub_two_failures:
  "fetch stub_accessor (stub_remote 2) p d =
     (Inr [(''mlotst'', sample_mlotst)],
      stub_accessor\<lparr>datastores := Map.empty(d \<mapsto> [(''mlotst'', sample_mlotst)])\<rparr>,
      (stub_remote 2)\<lparr>open_calls := 3\<rparr>)"
proof -
  have "fetch_loop stub_accessor (p, d) (stub_remote 2) 0 =
          (Inr [(''mlotst'', sample_mlotst)],
           (stub_remote 2)\<lparr>open_calls := open_calls (stub_remote 2) + 2 + 1\<rparr>)"
    by (rule fetch_loop_success_after_failures
          [where s = "()" and n = 3 and f = "stub_open_url 2" and m = 2])
       (auto simp: stub_accessor_def stub_remote_def stub_open_url_def)
  then show ?thesis
    by (simp add: fetch_def stub_accessor_def stub_remote_def)
qed

lemma stub_three_failures:
  "fetch stub_accessor (stub_remote 3) p d =
     (Inl RuntimeError_access, stub_accessor, (stub_remote 3)\<lparr>open_calls := 3\<rparr>)"
proof -
  have "fetch_loop stub_accessor (p, d) (stub_remote 3) 0 =
          (Inl RuntimeError_access,
           (stub_remote 3)\<lparr>open_calls := open_calls (stub_remote 3) + Suc 2\<rparr>)"
    by (rule fetch_loop_gives_up
          [where s = "()" and n = 3 and f = "stub_open_url 3" and m = 2])
       (auto simp: stub_accessor_def stub_remote_def stub_open_url_def)
  then show ?thesis
    by (simp add: fetch_def stub_accessor_def stub_remote_def)
qed

text \<open>
  C2.  The claim: the retry bound is the \<^verbatim>\<open>num_retries\<close> argument of the
  constructor, \<open>N - 1\<close> failures followed by a success give a handle and
  \<open>N\<close> failures give the "cannot access the dataset" error.  The code: the
  constructor does not keep its argument, so on the accessor it returns the
  first failed attempt ends in \<^verbatim>\<open>AttributeError\<close> for \<^verbatim>\<open>self.num_retries\<close>,
  whatever the connector would answer; and every attempt fails, the attribute
  \<^verbatim>\<open>session\<close> being unassigned as well.  (The loop itself counts as claimed
  once the attributes exist: \<open>fetch_loop_success_after_failures\<close> and
  \<open>fetch_loop_gives_up\<close>.)
\<close>

theorem fetch_after_init:
  "init n True = Inr \<lparr>datastores = Map.empty, session = None, num_retries = None\<rparr> \<and>
   fetch \<lparr>datastores = Map.empty, session = None, num_retries = None\<rparr> w prefix_dataset dataset =
     (Inl (AttributeError ''num_retries''),
      \<lparr>datastores = Map.empty, session = None, num_retries = None\<rparr>, w)"
  by (simp add: init_def fetch_def fetch_loop_no_attribute)

text \<open>
  C5.  A call of \<^verbatim>\<open>fetch\<close> keeps every entry of the cache as it is; a call
  for a cached dataset returns the cached handle and leaves the accessor and
  the remote state (so the count of connector calls) unchanged; a successful
  call leaves the handle in the cache, and any later call for the same dataset
  returns it without opening anything.
\<close>

theorem fetch_cache_grows:
  assumes "fetch self w p d = (r, self', w')"
  shows "(\<forall>k h. datastores self k = Some h \<longrightarrow> datastores self' k = Some h)
       \<and> (\<forall>h. datastores self d = Some h \<longrightarrow> r = Inr h \<and> self' = self \<and> w' = w)
       \<and> (\<forall>h. r = Inr h \<longrightarrow>
             datastores self' d = Some h \<and> fetch self' w' p' d = (Inr h, self', w'))"
  using fetch_cases [OF assms]
  by (auto simp: fetch_def)

theorem fetch_cache_grows_witness:
  "fetch stub_accessor (stub_remote 2) (PStr ''my'') (PStr ''med-cmcc-mld-rean-d'') =
     (Inr [(''mlotst'', sample_mlotst)],
      stub_accessor\<lparr>datastores := Map.empty(PStr ''med-cmcc-mld-rean-d'' \<mapsto> [(''mlotst'', sample_mlotst)])\<rparr>,
      (stub_remote 2)\<lparr>open_calls := 3\<rparr>)
   \<and> fetch (stub_accessor\<lparr>datastores := Map.empty(PStr ''med-cmcc-mld-rean-d'' \<mapsto> [(''mlotst'', sample_mlotst)])\<rparr>)
        ((stub_remote 2)\<lparr>open_calls := 3\<rparr>) (PStr ''my'') (PStr ''med-cmcc-mld-rean-d'') =
     (Inr [(''mlotst'', sample_mlotst)],
      stub_accessor\<lparr>datastores := Map.empty(PStr ''med-cmcc-mld-rean-d'' \<mapsto> [(''mlotst'', sample_mlotst)])\<rparr>,
      (stub_remote 2)\<lparr>open_calls := 3\<rparr>)"
  using fetch_cache_grows [OF stub_two_failures, where p' = "PStr ''my''"]
        stub_two_failures [of "PStr ''my''" "PStr ''med-cmcc-mld-rean-d''"]
  by simp

text \<open>
  C9.  A call of \<^verbatim>\<open>fetch\<close> that raises leaves the accessor, and so its
  cache, as it was; the cache changes only by the entry of the requested
  dataset, after the loop has produced a data store and \<^verbatim>\<open>xr.open_dataset\<close> has
  opened it.
\<close>

theorem fetch_atomic_on_failure:
  assumes "fetch self w p d = (r, self', w')"
  shows "(\<forall>e. r = Inl e \<longrightarrow> self' = self)
       \<and> (datastores self' \<noteq> datastores self \<longrightarrow>
            (\<exists>h data_store. r = Inr h
               \<and> fetch_loop self (p, d) w 0 = (Inr data_store, w')
               \<and> open_dataset w' data_store = Inr h
               \<and> datastores self' = (datastores self)(d \<mapsto> h)))"
  using fetch_cases [OF assms]
  by auto

theorem fetch_atomic_on_failure_witness:
  "fetch stub_accessor (stub_remote 3) (PStr ''my'') (PStr ''med-cmcc-mld-rean-d'') =
     (Inl RuntimeError_access, stub_accessor, (stub_remote 3)\<lparr>open_calls := 3\<rparr>)
   \<and> datastores stub_accessor = Map.empty"
  using fetch_atomic_on_failure [OF stub_three_failures]
        stub_three_failures [of "PStr ''my''" "PStr ''med-cmcc-mld-rean-d''"]
  by (simp add: stub_accessor_def)

section \<open>Selection, rows and cells\<close>

lemma slice_coords_lookup:
  "map_of (slice_coords_definition mode date long_lat depth has_depth) (key_lon mode) =
     (case fst long_lat of Span a b \<Rightarrow> Some (a, b) | Point x \<Rightarrow> None)"
  "map_of (slice_coords_definition mode date long_lat depth has_depth) (key_lat mode) =
     (case snd long_lat of Span a b \<Rightarrow> Some (a, b) | Point x \<Rightarrow> None)"
  "map_of (slice_coords_definition mode date long_lat depth has_depth) ''depth'' =
     (if truthy has_depth then (case depth of Span a b \<Rightarrow> Some (a, b) | Point x \<Rightarrow> None) else None)"
  "map_of (slice_coords_definition mode date long_lat depth has_depth) ''time'' =
     (case date of Span a b \<Rightarrow> Some (time_label a, time_label b) | Point x \<Rightarrow> None)"
  by (simp_all add: slice_coords_definition_def key_lon_def key_lat_def split: arg.splits)

lemma noslice_coords_lookup:
  "map_of (noslice_coords_definition mode date long_lat depth has_depth) (key_lon mode) =
     (case fst long_lat of Span a b \<Rightarrow> None | Point x \<Rightarrow> Some x)"
  "map_of (noslice_coords_definition mode date long_lat depth has_depth) (key_lat mode) =
     (case snd long_lat of Span a b \<Rightarrow> None | Point x \<Rightarrow> Some x)"
  "map_of (noslice_coords_definition mode date long_lat depth has_depth) ''depth'' =
     (if truthy has_depth then (case depth of Span a b \<Rightarrow> None | Point x \<Rightarrow> Some x) else None)"
  "map_of (noslice_coords_definition mode date long_lat depth has_depth) ''time'' =
     (case date of Span a b \<Rightarrow> None | Point x \<Rightarrow> Some (time_label x))"
  by (simp_all add: noslice_coords_definition_def key_lon_def key_lat_def split: arg.splits)

lemma drop_dups_subset: "set (drop_dups seen ps) \<subseteq> set ps"
  by (induction ps arbitrary: seen) auto

lemma sel_slice_props:
  "sel_slice da kw = Inr da' \<Longrightarrow>
     da_name da' = da_name da \<and> da_coords da' = da_coords da \<and> da_dims da' = da_dims da
     \<and> da_points da' = filter (\<lambda>p. \<forall>(k, lo, hi) \<in> set kw. in_slice k lo hi p) (da_points da)"
proof (induction kw arbitrary: da)
  case Nil
  then show ?case by simp
next
  case (Cons e kw)
  obtain k lo hi where e: "e = (k, lo, hi)" by (cases e)
  let ?da = "da\<lparr>da_points := filter (in_slice k lo hi) (da_points da)\<rparr>"
  from Cons.prems e have "sel_slice ?da kw = Inr da'" by (simp split: if_splits)
  from Cons.IH [OF this] show ?case by (auto simp: e intro: filter_cong)
qed

lemma sel_nearest_props:
  "sel_nearest da kw = Inr da' \<Longrightarrow>
     da_name da' = da_name da \<and> da_coords da' = da_coords da
     \<and> set (da_dims da') \<subseteq> set (da_dims da)
     \<and> set (da_points da') \<subseteq> set (da_points da)"
proof (induction kw arbitrary: da)
  case Nil
  then show ?case by simp
next
  case (Cons e kw)
  obtain k q where e: "e = (k, q)" by (cases e)
  from Cons.prems e obtain l where
    "sel_nearest (da\<lparr>da_dims := removeAll k (da_dims da),
        da_points := filter (\<lambda>p. map_of (fst p) k = Some l) (da_points da)\<rparr>) kw = Inr da'"
    by (auto split: if_splits option.splits)
  from Cons.IH [OF this] show ?case by auto
qed

lemma sel_nearest_dims:
  "sel_nearest da kw = Inr da' \<Longrightarrow> set (da_dims da') \<subseteq> set (da_dims da) - fst ` set kw"
proof (induction kw arbitrary: da)
  case Nil
  then show ?case by simp
next
  case (Cons e kw)
  obtain k q where e: "e = (k, q)" by (cases e)
  from Cons.prems e obtain l where
    "sel_nearest (da\<lparr>da_dims := removeAll k (da_dims da),
        da_points := filter (\<lambda>p. map_of (fst p) k = Some l) (da_points da)\<rparr>) kw = Inr da'"
    by (auto split: if_splits option.splits)
  from Cons.IH [OF this] show ?case by (auto simp: e)
qed

lemma f_slice_values_props:
  assumes "f_slice_values ds mode date long_lat depth has_depth = Inr values"
  shows "da_name values = da_name ds" and "da_coords values = da_coords ds"
    and "set (da_points values) \<subseteq> set (da_points ds)"
    and "\<And>k lo hi p. (k, lo, hi) \<in> set (slice_coords_definition mode date long_lat depth has_depth)
           \<Longrightarrow> p \<in> set (da_points values) \<Longrightarrow> in_slice k lo hi p"
proof -
  from assms obtain v0 where
    s: "sel_slice (drop_duplicates ds) (slice_coords_definition mode date long_lat depth has_depth) = Inr v0"
    and n: "sel_nearest v0 (noslice_coords_definition mode date long_lat depth has_depth) = Inr values"
    by (auto simp: f_slice_values_def split: sum.splits)
  note S = sel_slice_props [OF s] and N = sel_nearest_props [OF n]
  show "da_name values = da_name ds" "da_coords values = da_coords ds"
    using S N by (simp_all add: drop_duplicates_def)
  have "set (da_points v0) \<subseteq> set (da_points ds)"
    using S drop_dups_subset [of "[]" "da_points ds"] by (auto simp: drop_duplicates_def)
  with N show "set (da_points values) \<subseteq> set (da_points ds)" by blast
  fix k lo hi p
  assume "(k, lo, hi) \<in> set (slice_coords_definition mode date long_lat depth has_depth)"
    and "p \<in> set (da_points values)"
  with S N show "in_slice k lo hi p" by auto
qed

lemma map_of_rename:
  assumes "\<And>j. j \<in> fst ` set r \<Longrightarrow> (f j = k' \<longleftrightarrow> j = k)"
  shows "map_of (map (\<lambda>(j, c). (f j, c)) r) k' = map_of r k"
  using assms
proof (induction r)
  case Nil
  then show ?case by simp
next
  case (Cons e r)
  obtain j c where e: "e = (j, c)" by (cases e)
  have "f j = k' \<longleftrightarrow> j = k" using Cons.prems [of j] by (simp add: e)
  moreover have "map_of (map (\<lambda>(j, c). (f j, c)) r) k' = map_of r k"
    using Cons.prems by (intro Cons.IH) auto
  ultimately show ?case by (auto simp: e)
qed

lemma row_of_point_keys: "fst ` set (row_of_point name p) = fst ` set (fst p) \<union> {name}"
  by (force simp: row_of_point_def)

lemma map_of_row_of_point:
  "name \<notin> fst ` set (fst p) \<Longrightarrow> map_of (row_of_point name p) name = Some (snd p)"
  "name \<noteq> k \<Longrightarrow> map_of (row_of_point name p) k = map_option Fl (map_of (fst p) k)"
proof -
  have m: "map_of (map (\<lambda>(k, x). (k, Fl x)) cs) k = map_option Fl (map_of cs k)" for cs :: coords and k
    by (induction cs) auto
  show "map_of (row_of_point name p) name = Some (snd p)" if "name \<notin> fst ` set (fst p)"
  proof -
    from that have "map_of (fst p) name = None" by (simp add: map_of_eq_None_iff)
    then show ?thesis by (simp add: row_of_point_def map_add_def m)
  qed
  show "name \<noteq> k \<Longrightarrow> map_of (row_of_point name p) k = map_option Fl (map_of (fst p) k)"
    by (auto simp: row_of_point_def map_add_def m split: option.splits)
qed

lemma table_row_lookup:
  assumes keys: "fst ` set (fst p) \<subseteq> {''time'', key_lon mode, key_lat mode, ''depth''}"
    and name: "name \<notin> {''time'', ''lon'', ''lat'', ''longitude'', ''latitude'', ''depth''}"
    and k: "(k', k) \<in> {(''time'', ''time''), (''longitude'', key_lon mode),
                (''latitude'', key_lat mode), (''depth'', ''depth''), (name, name)}"
  shows "map_of (table_row mode name d p) k' =
           map_of (case d of None \<Rightarrow> row_of_point name p
                   | Some x \<Rightarrow> AList.update ''depth'' (Fl x) (row_of_point name p)) k"
proof -
  define kl kt where "kl = key_lon mode" and "kt = key_lat mode"
  let ?f = "rename_key (zip [''time'', kl, kt, ''depth'']
                            [''time'', ''longitude'', ''latitude'', ''depth''])"
  let ?r = "case d of None \<Rightarrow> row_of_point name p
            | Some x \<Rightarrow> AList.update ''depth'' (Fl x) (row_of_point name p)"
  have rkeys: "fst ` set ?r \<subseteq> {''time'', kl, kt, ''depth'', name}"
    using keys unfolding kl_def kt_def
    by (cases d) (auto simp: row_of_point_keys AList.dom_update)
  have f: "?f ''time'' = ''time''" "?f kl = ''longitude''" "?f kt = ''latitude''"
    "?f ''depth'' = ''depth''" "?f name = name"
    using name by (simp_all add: rename_key_def kl_def kt_def key_lon_def key_lat_def)
  have d: "kl \<noteq> ''time''" "kl \<noteq> ''depth''" "kt \<noteq> ''time''" "kt \<noteq> ''depth''" "kl \<noteq> kt"
    "name \<noteq> kl" "name \<noteq> kt" "kl \<noteq> ''latitude''" "kt \<noteq> ''longitude''"
    using name by (simp_all add: kl_def kt_def key_lon_def key_lat_def)
  have "map_of (map (\<lambda>(j, c). (?f j, c)) ?r) k' = map_of ?r k"
  proof (rule map_of_rename)
    fix j assume "j \<in> fst ` set ?r"
    with rkeys have j: "j = ''time'' \<or> j = kl \<or> j = kt \<or> j = ''depth'' \<or> j = name" by blast
    from k consider (t) "k' = ''time''" "k = ''time''" | (lo) "k' = ''longitude''" "k = kl"
      | (la) "k' = ''latitude''" "k = kt" | (de) "k' = ''depth''" "k = ''depth''"
      | (na) "k' = name" "k = name"
      by (auto simp: kl_def kt_def)
    then show "?f j = k' \<longleftrightarrow> j = k"
    proof cases
      case t
      from j show ?thesis unfolding t using f d name by (elim disjE) auto
    next
      case lo
      from j show ?thesis unfolding lo using f d name by (elim disjE) auto
    next
      case la
      from j show ?thesis unfolding la using f d name by (elim disjE) auto
    next
      case de
      from j show ?thesis unfolding de using f d name by (elim disjE) auto
    next
      case na
      from j show ?thesis unfolding na using f d name by (elim disjE) auto
    qed
  qed
  then show ?thesis by (simp add: table_row_def kl_def kt_def)
qed

lemma table_row_cells:
  assumes wf: "well_formed mode ds" and p: "p \<in> set (da_points ds)"
  shows "cell (table_row mode (da_name ds) d p) ''time'' = coord_cell p ''time''"
    and "cell (table_row mode (da_name ds) d p) ''longitude'' = coord_cell p (key_lon mode)"
    and "cell (table_row mode (da_name ds) d p) ''latitude'' = coord_cell p (key_lat mode)"
    and "cell (table_row mode (da_name ds) d p) ''depth'' =
           (case d of None \<Rightarrow> coord_cell p ''depth'' | Some x \<Rightarrow> Fl x)"
    and "cell (table_row mode (da_name ds) d p) (da_name ds) = snd p"
proof -
  let ?name = "da_name ds"
  from wf p have "set (map fst (fst p)) \<subseteq> {''time'', key_lon mode, key_lat mode, ''depth''}"
    by (simp add: well_formed_def)
  then have keys: "fst ` set (fst p) \<subseteq> {''time'', key_lon mode, key_lat mode, ''depth''}"
    by simp
  from wf have name: "?name \<notin> {''time'', ''lon'', ''lat'', ''longitude'', ''latitude'', ''depth''}"
    by (simp add: well_formed_def)
  then have name': "?name \<noteq> key_lon mode" "?name \<noteq> key_lat mode" "key_lon mode \<noteq> ''depth''"
    "key_lat mode \<noteq> ''depth''"
    by (simp_all add: key_lon_def key_lat_def)
  with keys name have fresh: "?name \<notin> fst ` set (fst p)" by auto
  note look = table_row_lookup [OF keys name]
  show "cell (table_row mode ?name d p) ''time'' = coord_cell p ''time''"
    using name by (cases d)
      (simp_all add: cell_def coord_cell_def look [of "''time''" "''time''"] map_of_row_of_point
         update_conv' split: option.splits)
  show "cell (table_row mode ?name d p) ''longitude'' = coord_cell p (key_lon mode)"
    using name' by (cases d)
      (simp_all add: cell_def coord_cell_def look [of "''longitude''" "key_lon mode"]
         map_of_row_of_point update_conv' split: option.splits)
  show "cell (table_row mode ?name d p) ''latitude'' = coord_cell p (key_lat mode)"
    using name' by (cases d)
      (simp_all add: cell_def coord_cell_def look [of "''latitude''" "key_lat mode"]
         map_of_row_of_point update_conv' split: option.splits)
  show "cell (table_row mode ?name d p) ''depth'' =
           (case d of None \<Rightarrow> coord_cell p ''depth'' | Some x \<Rightarrow> Fl x)"
    using name by (cases d)
      (simp_all add: cell_def coord_cell_def look [of "''depth''" "''depth''"] map_of_row_of_point
         update_conv' split: option.splits)
  show "cell (table_row mode ?name d p) ?name = snd p"
    using name fresh by (cases d)
      (simp_all add: cell_def look [of ?name ?name] map_of_row_of_point update_conv')
qed

lemma well_formed_values:
  assumes "well_formed mode ds"
    and "f_slice_values ds mode date long_lat depth has_depth = Inr values"
  shows "well_formed mode values"
proof -
  from assms(2) obtain v0 where
    s: "sel_slice (drop_duplicates ds) (slice_coords_definition mode date long_lat depth has_depth) = Inr v0"
    and n: "sel_nearest v0 (noslice_coords_definition mode date long_lat depth has_depth) = Inr values"
    by (auto simp: f_slice_values_def split: sum.splits)
  from sel_slice_props [OF s] sel_nearest_props [OF n]
  have "set (da_dims values) \<subseteq> set (da_dims ds)"
    by (auto simp: drop_duplicates_def)
  moreover note P = f_slice_values_props(1,2,3) [OF assms(2)]
  moreover from assms(1) P(3)
  have "\<forall>p \<in> set (da_points values). map fst (fst p) = da_coords ds"
    by (auto simp: well_formed_def)
  ultimately show ?thesis
    using assms(1) by (simp add: well_formed_def P(1,2)) blast
qed

lemma map_zip_replicate:
  "map (\<lambda>(d, p). g d p) (zip (replicate (length ps) x) ps) = map (g x) ps"
  by (induction ps) auto

lemma set_index_props:
  assumes "set_index df keys = Inr df'"
  shows "df_index df' = keys" and "df_rows df' = df_rows df"
    and "df_columns df' = filter (\<lambda>c. c \<notin> set keys) (df_columns df)"
proof -
  from assms have "df' = df\<lparr>df_index := keys,
      df_columns := filter (\<lambda>c. c \<notin> set keys) (df_columns df)\<rparr>"
    unfolding set_index_def
    by (cases "filter (\<lambda>k. k \<notin> set (df_columns df)) keys") simp_all
  then show "df_index df' = keys" "df_rows df' = df_rows df"
    "df_columns df' = filter (\<lambda>c. c \<notin> set keys) (df_columns df)"
    by simp_all
qed

lemma rename_index_props:
  assumes "rename_index df names = Inr df'"
  shows "df_index df' = names" and "df_columns df' = df_columns df"
    and "df_rows df' = map (map (\<lambda>(k, c). (rename_key (zip (df_index df) names) k, c))) (df_rows df)"
  using assms by (auto simp: rename_index_def split: if_splits)

lemma to_dataframe_props:
  assumes "to_dataframe da = Inr df"
  shows "df_index df = da_dims da"
    and "df_columns df = filter (\<lambda>c. c \<notin> set (da_dims da)) (da_coords da) @ [da_name da]"
    and "df_rows df = map (row_of_point (da_name da)) (da_points da)"
  using assms by (auto simp: to_dataframe_def split: if_splits)

lemma setitem_props:
  assumes "setitem df ''depth'' depth = Inr df'"
  shows "df_index df' = df_index df
    \<and> df_columns df' = add_column ''depth'' (df_columns df)
    \<and> length (depth_cells (PBool False) depth (length (df_rows df))) = length (df_rows df)
    \<and> df_rows df' = map (\<lambda>(d, r). case d of None \<Rightarrow> r | Some x \<Rightarrow> AList.update ''depth'' (Fl x) r)
           (zip (depth_cells (PBool False) depth (length (df_rows df))) (df_rows df))"
proof (cases depth)
  case (Point x)
  with assms have "df' = df\<lparr>df_columns := add_column ''depth'' (df_columns df),
      df_rows := map (AList.update ''depth'' (Fl x)) (df_rows df)\<rparr>"
    by (simp add: setitem_def)
  with Point show ?thesis
    by (simp add: depth_cells_def
          map_zip_replicate [of "\<lambda>d r. case d of None \<Rightarrow> r | Some x \<Rightarrow> AList.update ''depth'' (Fl x) r"])
next
  case (Span a b)
  with assms have two: "length (df_rows df) = 2"
    and df': "df' = df\<lparr>df_columns := add_column ''depth'' (df_columns df),
      df_rows := map (\<lambda>(x, r). AList.update ''depth'' (Fl x) r) (zip [a, b] (df_rows df))\<rparr>"
    by (simp_all add: setitem_def split: if_splits)
  from two obtain r1 r2 where rs: "df_rows df = [r1, r2]"
    by (auto simp: length_Suc_conv numeral_2_eq_2)
  from Span df' rs show ?thesis
    by (simp add: depth_cells_def)
qed

lemma f_slice_table_rows:
  assumes "f_slice_table values mode depth has_depth = Inr df"
  shows "df_index df = [''time'', ''longitude'', ''latitude'', ''depth'']"
    and "length (depth_cells has_depth depth (length (da_points values))) = length (da_points values)"
    and "df_rows df = map (\<lambda>(d, p). table_row mode (da_name values) d p)
           (zip (depth_cells has_depth depth (length (da_points values))) (da_points values))"
    and "df_columns df = filter (\<lambda>c. c \<notin> set [''time'', key_lon mode, key_lat mode, ''depth''])
           ((if truthy has_depth then id else add_column ''depth'')
              (da_dims values @ filter (\<lambda>c. c \<notin> set (da_dims values)) (da_coords values)
                 @ [da_name values]))"
proof -
  let ?keys = "[''time'', key_lon mode, key_lat mode, ''depth'']"
  let ?names = "[''time'', ''longitude'', ''latitude'', ''depth'']"
  let ?n = "length (da_points values)"
  let ?ps = "da_points values"
  let ?name = "da_name values"
  let ?upd = "\<lambda>d r. case d of None \<Rightarrow> r | Some x \<Rightarrow> AList.update ''depth'' (Fl x) r"
  from assms obtain df0 df1 df2 where
    d0: "to_dataframe values = Inr df0"
    and d1: "(if \<not> truthy has_depth then setitem (reset_index df0) ''depth'' depth
              else Inr (reset_index df0)) = Inr df1"
    and d2: "set_index df1 ?keys = Inr df2"
    and d3: "rename_index df2 ?names = Inr df"
    by (auto simp: f_slice_table_def split: sum.splits)
  note df0 = to_dataframe_props [OF d0]
  note df2 = set_index_props [OF d2]
  note df3 = rename_index_props [OF d3]
  show "df_index df = ?names" by (rule df3)
  have rows1: "length (depth_cells has_depth depth ?n) = ?n
      \<and> df_rows df1 = map (\<lambda>(d, r). ?upd d r)
            (zip (depth_cells has_depth depth ?n) (map (row_of_point ?name) ?ps))
      \<and> df_columns df1 = (if truthy has_depth then id else add_column ''depth'')
           (da_dims values @ filter (\<lambda>c. c \<notin> set (da_dims values)) (da_coords values)
              @ [?name])"
  proof (cases "truthy has_depth")
    case True
    with d1 have "df1 = reset_index df0" by simp
    with True df0 show ?thesis
      using map_zip_replicate [of ?upd "map (row_of_point ?name) ?ps" None]
      by (simp add: depth_cells_def reset_index_def)
  next
    case False
    with d1 have "setitem (reset_index df0) ''depth'' depth = Inr df1" by simp
    from setitem_props [OF this] False df0 show ?thesis
      by (simp add: depth_cells_def reset_index_def)
  qed
  then show "length (depth_cells has_depth depth ?n) = ?n" by simp
  have "map (map (\<lambda>(k, c). (rename_key (zip ?keys ?names) k, c)))
          (map (\<lambda>(d, r). ?upd d r) (zip ds (map (row_of_point ?name) ps))) =
        map (\<lambda>(d, p). table_row mode ?name d p) (zip ds ps)" for ds ps
  proof (induction ds arbitrary: ps)
    case Nil
    show ?case by simp
  next
    case (Cons d ds)
    then show ?case
      by (cases ps; cases d) (simp_all add: table_row_def)
  qed
  with rows1 df3(3) df2(1,2) show "df_rows df = map (\<lambda>(d, p). table_row mode ?name d p)
           (zip (depth_cells has_depth depth ?n) ?ps)"
    by simp
  from rows1 df3(2) df2(3) show "df_columns df = filter (\<lambda>c. c \<notin> set ?keys)
           ((if truthy has_depth then id else add_column ''depth'')
              (da_dims values @ filter (\<lambda>c. c \<notin> set (da_dims values)) (da_coords values)
                 @ [?name]))"
    by simp
qed

lemma f_slice_table_columns:
  assumes wf: "well_formed mode values"
    and df: "f_slice_table values mode depth has_depth = Inr df"
  shows "df_columns df = [da_name values]"
proof -
  let ?keys = "[''time'', key_lon mode, key_lat mode, ''depth'']"
  from wf have dims: "set (da_dims values) \<subseteq> set ?keys" and coords: "set (da_coords values) \<subseteq> set ?keys"
    and name: "da_name values \<notin> set ?keys"
    by (auto simp: well_formed_def key_lon_def key_lat_def)
  have nil: "filter (\<lambda>c. c \<notin> set ?keys) cs = []" if "set cs \<subseteq> set ?keys" for cs
    using that by (induction cs) auto
  have "filter (\<lambda>c. c \<notin> set ?keys)
          (da_dims values @ filter (\<lambda>c. c \<notin> set (da_dims values)) (da_coords values)) = []"
    using dims coords by (intro nil) auto
  with name have "filter (\<lambda>c. c \<notin> set ?keys)
      ((if truthy has_depth then id else add_column ''depth'')
         (da_dims values @ filter (\<lambda>c. c \<notin> set (da_dims values)) (da_coords values)
            @ [da_name values])) = [da_name values]"
    by (simp add: add_column_def)
  with f_slice_table_rows(4) [OF df] show ?thesis by simp
qed

lemma table_rows_all2:
  assumes "length ds = length ps" and "\<And>d p. p \<in> set ps \<Longrightarrow> d \<in> set ds \<Longrightarrow> P (g d p) p"
  shows "list_all2 P (map (\<lambda>(d, p). g d p) (zip ds ps)) ps"
  using assms by (induction ds ps rule: list_induct2) auto

lemma f_slice_unfold:
  assumes "f_slice reduction ds mode date long_lat depth has_depth = Inr (result, sel)"
  obtains vals df where
    "f_slice_values ds mode date long_lat depth has_depth = Inr vals"
    "f_slice_table vals mode depth has_depth = Inr df"
    "f_slice_result reduction df = Inr result"
    "selected_coordinates vals mode has_depth = Inr sel"
  using assms by (auto simp: f_slice_def split: sum.splits)

lemma f_slice_rows:
  assumes wf: "well_formed mode ds"
    and v: "f_slice_values ds mode date long_lat depth has_depth = Inr values"
    and t: "f_slice_table values mode depth has_depth = Inr df"
  shows "list_all2 (\<lambda>r p. cell r ''time'' = coord_cell p ''time''
            \<and> cell r ''longitude'' = coord_cell p (key_lon mode)
            \<and> cell r ''latitude'' = coord_cell p (key_lat mode)
            \<and> (truthy has_depth \<longrightarrow> cell r ''depth'' = coord_cell p ''depth'')
            \<and> (\<forall>x. \<not> truthy has_depth \<and> depth = Point x \<longrightarrow> cell r ''depth'' = Fl x)
            \<and> cell r (da_name ds) = snd p) (df_rows df) (da_points values)"
proof -
  note V = f_slice_values_props [OF v]
  note T = f_slice_table_rows [OF t]
  let ?ds = "depth_cells has_depth depth (length (da_points values))"
  show ?thesis
    unfolding T(3) V(1)
  proof (rule table_rows_all2 [OF T(2)])
    fix d p assume p: "p \<in> set (da_points values)" and d: "d \<in> set ?ds"
    from p V(3) have p': "p \<in> set (da_points ds)" by blast
    note C = table_row_cells [OF wf p', of d]
    from d have "truthy has_depth \<longrightarrow> d = None"
      by (auto simp: depth_cells_def)
    moreover from d have "\<forall>x. \<not> truthy has_depth \<and> depth = Point x \<longrightarrow> d = Some x"
      by (auto simp: depth_cells_def)
    ultimately show "cell (table_row mode (da_name ds) d p) ''time'' = coord_cell p ''time''
            \<and> cell (table_row mode (da_name ds) d p) ''longitude'' = coord_cell p (key_lon mode)
            \<and> cell (table_row mode (da_name ds) d p) ''latitude'' = coord_cell p (key_lat mode)
            \<and> (truthy has_depth \<longrightarrow> cell (table_row mode (da_name ds) d p) ''depth'' = coord_cell p ''depth'')
            \<and> (\<forall>x. \<not> truthy has_depth \<and> depth = Point x \<longrightarrow>
                  cell (table_row mode (da_name ds) d p) ''depth'' = Fl x)
            \<and> cell (table_row mode (da_name ds) d p) (da_name ds) = snd p"
      using C by auto
  qed
qed

lemma f_slice_result_cases:
  "f_slice_result reduction df = Inr result \<Longrightarrow>
     (reduction \<noteq> Some ''mean'' \<longrightarrow> result = Table df)
     \<and> (reduction = Some ''mean'' \<longrightarrow> (\<exists>c. df_columns df = [c]
           \<and> result = Scalar (mean_skipna (map (\<lambda>r. cell r c) (df_rows df)))))"
  by (auto simp: f_slice_result_def mean_item_def split: if_splits sum.splits list.splits)

lemma list_all2_map_eq:
  "list_all2 (\<lambda>r p. g r = h p) rs ps \<Longrightarrow> map g rs = map h ps"
  by (induction rule: list_all2_induct) auto

lemma f_slice_value_cells:
  assumes wf: "well_formed mode ds"
    and v: "f_slice_values ds mode date long_lat depth has_depth = Inr vals"
    and t: "f_slice_table vals mode depth has_depth = Inr df"
    and r: "f_slice_result reduction df = Inr result"
  shows "df_columns df = [da_name ds]"
    and "map (\<lambda>r. cell r (da_name ds)) (df_rows df) = map snd (da_points vals)"
    and "result = (if reduction = Some ''mean''
                   then Scalar (mean_skipna (map snd (da_points vals))) else Table df)"
proof -
  note V = f_slice_values_props [OF v]
  from f_slice_table_columns [OF well_formed_values [OF wf v] t] V(1)
  show c: "df_columns df = [da_name ds]" by simp
  have "list_all2 (\<lambda>r p. cell r (da_name ds) = snd p) (df_rows df) (da_points vals)"
    by (rule list_all2_mono [OF f_slice_rows [OF wf v t]]) simp
  then show m: "map (\<lambda>r. cell r (da_name ds)) (df_rows df) = map snd (da_points vals)"
    by (rule list_all2_map_eq)
  from f_slice_result_cases [OF r] c m
  show "result = (if reduction = Some ''mean''
                   then Scalar (mean_skipna (map snd (da_points vals))) else Table df)"
    by auto
qed

lemma selected_coordinates_depth:
  assumes "selected_coordinates vals mode has_depth = Inr sel"
  shows "map_of sel ''depth'' =
           Some (if truthy has_depth then Arr (labels ''depth'' vals) else Nan_coord)"
  using assms
  by (auto simp: selected_coordinates_def coords_to_numpy_def key_lon_def key_lat_def
        split: sum.splits if_splits)

lemma depthless_selection:
  assumes "\<not> truthy has_depth"
  shows "f_slice_values ds mode date long_lat depth' has_depth =
           f_slice_values ds mode date long_lat depth has_depth"
proof -
  from assms have "slice_coords_definition mode date long_lat depth' has_depth =
      slice_coords_definition mode date long_lat depth has_depth"
    and "noslice_coords_definition mode date long_lat depth' has_depth =
      noslice_coords_definition mode date long_lat depth has_depth"
    by (simp_all add: slice_coords_definition_def noslice_coords_definition_def)
  then show ?thesis unfolding f_slice_values_def by (simp cong: sum.case_cong)
qed

lemma list_all2_list_all:
  "list_all2 P rs ps \<Longrightarrow> (\<And>r p. p \<in> set ps \<Longrightarrow> P r p \<Longrightarrow> Q r) \<Longrightarrow> list_all Q rs"
  by (induction rule: list_all2_induct) auto

section \<open>Evaluation of the slicer on the sample arrays\<close>

lemmas f_slice_eval =
  f_slice_def f_slice_values_def f_slice_table_def f_slice_result_def selected_coordinates_def
  slice_coords_definition_def noslice_coords_definition_def key_lon_def key_lat_def time_label_def
  drop_duplicates_def in_slice_def labels_def List.map_filter_def to_dataframe_def row_of_point_def
  reset_index_def setitem_def add_column_def set_index_def rename_index_def rename_key_def
  mean_item_def mean_skipna_def cell_def coords_to_numpy_def

lemma sample_table:
  "f_slice None sample_mlotst (PStr ''lon-lat'') (Point 0) (Span 0 10, Point 40.2) (Point 7) (PBool False) =
   Inr (Table
       \<lparr>df_index = [''time'', ''longitude'', ''latitude'', ''depth''],
          df_columns = [''mlotst''],
          df_rows =
            [[(''time'', Fl 0), (''latitude'', Fl 40), (''longitude'', Fl 5), (''mlotst'', Fl 2), (''depth'', Fl 7)],
             [(''time'', Fl 0), (''latitude'', Fl 40), (''longitude'', Fl 8), (''mlotst'', NaN), (''depth'', Fl 7)]]\<rparr>,
      [(''time'', Arr [0]), (''lon'', Arr [5, 8]), (''lat'', Arr [40]), (''depth'', Nan_coord)])"
  by (simp add: f_slice_eval sample_mlotst_def)

lemma sample_mean:
  "f_slice (Some ''mean'') sample_mlotst (PStr ''lon-lat'') (Point 0) (Span 0 10, Point 40.2) (Point 7) (PBool False) =
   Inr (Scalar (Fl 2),
      [(''time'', Arr [0]), (''lon'', Arr [5, 8]), (''lat'', Arr [40]), (''depth'', Nan_coord)])"
  by (simp add: f_slice_eval sample_mlotst_def)

lemma sample_well_formed: "well_formed (PStr ''lon-lat'') sample_mlotst"
  by (simp add: well_formed_def sample_mlotst_def key_lon_def key_lat_def)

lemma sample_chl_well_formed: "well_formed (PStr ''longitude-latitude'') sample_chl"
  by (simp add: well_formed_def sample_chl_def key_lon_def key_lat_def)

lemma sample_chl_table:
  "f_slice None sample_chl (PStr ''longitude-latitude'') (Point 0) (Span 13.5 15, Point 43.5)
     (Point 8.3) (PBool True) =
   Inr (Table
         \<lparr>df_index = [''time'', ''longitude'', ''latitude'', ''depth''],
          df_columns = [''chl''],
          df_rows =
            [[(''time'', Fl 0), (''depth'', Fl 10), (''latitude'', Fl 43), (''longitude'', Fl 14),
              (''chl'', Fl 2)]]\<rparr>,
        [(''time'', Arr [0]), (''longitude'', Arr [14]), (''latitude'', Arr [43]),
         (''depth'', Arr [10])])"
  by (simp add: f_slice_eval sample_chl_def)

section \<open>What the slicer returns\<close>

text \<open>
  The library calls of \<^verbatim>\<open>f_slice\<close> can raise (a key that is not a dimension,
  an array without dimensions, a column of the wrong length); the statements
  below are about the calls that return.
\<close>

text \<open>
  C6.  As stated the claim fails for the depth axis of a dataset without depth
  axis: there a depth range is neither sliced nor selected, by the test
  \<^verbatim>\<open>if has_depth\<close> of line 248.
\<close>

theorem depthless_depth_range_not_sliced:
  "slice_coords_definition (PStr ''lon-lat'') (Point 0) (Point 5, Point 40) (Span 0 10) (PBool False) = []
   \<and> noslice_coords_definition (PStr ''lon-lat'') (Point 0) (Point 5, Point 40) (Span 0 10) (PBool False) =
       [(''lon'', 5), (''lat'', 40), (''time'', 0)]"
  by (simp add: slice_coords_definition_def noslice_coords_definition_def key_lon_def key_lat_def
        time_label_def)

text \<open>
  C6, amended.  For longitude, latitude and time, and for depth when the
  dataset has a depth axis, a range is passed as a slice and a scalar as a
  nearest-point selection, longitude and latitude under the keys of the slice
  mode (\<^verbatim>\<open>lon\<close>, \<^verbatim>\<open>lat\<close> for \<^verbatim>\<open>"lon-lat"\<close>, \<^verbatim>\<open>longitude\<close>,
  \<^verbatim>\<open>latitude\<close> otherwise); for a dataset without depth axis nothing is
  selected on depth.  On a well-formed array, every row of a table returned
  for a longitude range has its longitude within the range.
\<close>

theorem f_slice_axes:
  "map_of (slice_coords_definition mode date long_lat depth has_depth) (key_lon mode) =
     (case fst long_lat of Span a b \<Rightarrow> Some (a, b) | Point x \<Rightarrow> None)
   \<and> map_of (noslice_coords_definition mode date long_lat depth has_depth) (key_lon mode) =
     (case fst long_lat of Span a b \<Rightarrow> None | Point x \<Rightarrow> Some x)
   \<and> map_of (slice_coords_definition mode date long_lat depth has_depth) (key_lat mode) =
     (case snd long_lat of Span a b \<Rightarrow> Some (a, b) | Point x \<Rightarrow> None)
   \<and> map_of (noslice_coords_definition mode date long_lat depth has_depth) (key_lat mode) =
     (case snd long_lat of Span a b \<Rightarrow> None | Point x \<Rightarrow> Some x)
   \<and> map_of (slice_coords_definition mode date long_lat depth has_depth) ''time'' =
     (case date of Span a b \<Rightarrow> Some (time_label a, time_label b) | Point x \<Rightarrow> None)
   \<and> map_of (noslice_coords_definition mode date long_lat depth has_depth) ''time'' =
     (case date of Span a b \<Rightarrow> None | Point x \<Rightarrow> Some (time_label x))
   \<and> map_of (slice_coords_definition mode date long_lat depth has_depth) ''depth'' =
     (if truthy has_depth then (case depth of Span a b \<Rightarrow> Some (a, b) | Point x \<Rightarrow> None)
      else None)
   \<and> map_of (noslice_coords_definition mode date long_lat depth has_depth) ''depth'' =
     (if truthy has_depth then (case depth of Span a b \<Rightarrow> None | Point x \<Rightarrow> Some x)
      else None)
   \<and> key_lon mode = (if mode = PStr ''lon-lat'' then ''lon'' else ''longitude'')
   \<and> key_lat mode = (if mode = PStr ''lon-lat'' then ''lat'' else ''latitude'')
   \<and> (\<forall>lo hi df sel.
         well_formed mode ds \<and> fst long_lat = Span lo hi
         \<and> f_slice reduction ds mode date long_lat depth has_depth = Inr (Table df, sel) \<longrightarrow>
         list_all (\<lambda>r. \<exists>x. cell r ''longitude'' = Fl x \<and> lo \<le> x \<and> x \<le> hi) (df_rows df))"
proof -
  have "list_all (\<lambda>r. \<exists>x. cell r ''longitude'' = Fl x \<and> lo \<le> x \<and> x \<le> hi) (df_rows df)"
    if wf: "well_formed mode ds" and span: "fst long_lat = Span lo hi"
      and f: "f_slice reduction ds mode date long_lat depth has_depth = Inr (Table df, sel)"
    for lo hi df sel
  proof -
    from f obtain vals df' where
      v: "f_slice_values ds mode date long_lat depth has_depth = Inr vals"
      and t: "f_slice_table vals mode depth has_depth = Inr df'"
      and r: "f_slice_result reduction df' = Inr (Table df)"
      by (rule f_slice_unfold)
    from f_slice_value_cells(3) [OF wf v t r] have "df' = df" by (simp split: if_splits)
    from span have "map_of (slice_coords_definition mode date long_lat depth has_depth)
        (key_lon mode) = Some (lo, hi)"
      by (simp add: slice_coords_lookup)
    then have "(key_lon mode, lo, hi) \<in> set (slice_coords_definition mode date long_lat depth has_depth)"
      by (rule map_of_SomeD)
    note inside = f_slice_values_props(4) [OF v this]
    show ?thesis
      unfolding \<open>df' = df\<close> [symmetric]
    proof (rule list_all2_list_all [OF f_slice_rows [OF wf v t]])
      fix r p assume "p \<in> set (da_points vals)"
        and "cell r ''time'' = coord_cell p ''time''
            \<and> cell r ''longitude'' = coord_cell p (key_lon mode)
            \<and> cell r ''latitude'' = coord_cell p (key_lat mode)
            \<and> (truthy has_depth \<longrightarrow> cell r ''depth'' = coord_cell p ''depth'')
            \<and> (\<forall>x. \<not> truthy has_depth \<and> depth = Point x \<longrightarrow> cell r ''depth'' = Fl x)
            \<and> cell r (da_name ds) = snd p"
      with inside [of p] show "\<exists>x. cell r ''longitude'' = Fl x \<and> lo \<le> x \<and> x \<le> hi"
        by (auto simp: in_slice_def coord_cell_def split: option.splits)
    qed
  qed
  then have rows: "\<forall>lo hi df sel.
         well_formed mode ds \<and> fst long_lat = Span lo hi
         \<and> f_slice reduction ds mode date long_lat depth has_depth = Inr (Table df, sel) \<longrightarrow>
         list_all (\<lambda>r. \<exists>x. cell r ''longitude'' = Fl x \<and> lo \<le> x \<and> x \<le> hi) (df_rows df)"
    by blast
  have keys: "key_lon mode = (if mode = PStr ''lon-lat'' then ''lon'' else ''longitude'')"
    "key_lat mode = (if mode = PStr ''lon-lat'' then ''lat'' else ''latitude'')"
    by (simp_all add: key_lon_def key_lat_def)
  show ?thesis
    by (intro conjI) (rule slice_coords_lookup noslice_coords_lookup keys rows)+
qed

theorem f_slice_axes_witness:
  "well_formed (PStr ''longitude-latitude'') sample_chl
   \<and> fst (Span 13.5 15 :: real arg, Point 43.5 :: real arg) = Span 13.5 15
   \<and> f_slice None sample_chl (PStr ''longitude-latitude'') (Point 0) (Span 13.5 15, Point 43.5)
       (Point 8.3) (PBool True) =
     Inr (Table
           \<lparr>df_index = [''time'', ''longitude'', ''latitude'', ''depth''],
            df_columns = [''chl''],
            df_rows =
              [[(''time'', Fl 0), (''depth'', Fl 10), (''latitude'', Fl 43), (''longitude'', Fl 14),
                (''chl'', Fl 2)]]\<rparr>,
          [(''time'', Arr [0]), (''longitude'', Arr [14]), (''latitude'', Arr [43]),
           (''depth'', Arr [10])])
   \<and> cell [(''time'', Fl 0), (''depth'', Fl 10), (''latitude'', Fl 43), (''longitude'', Fl 14),
             (''chl'', Fl 2)] ''longitude'' = Fl 14
   \<and> (13.5 :: real) \<le> 14 \<and> (14 :: real) \<le> 15"
  using f_slice_axes [of "PStr ''longitude-latitude''" "Point 0" "(Span 13.5 15, Point 43.5)"
          "Point 8.3" "PBool True" sample_chl None]
        sample_chl_well_formed sample_chl_table
  by (simp add: cell_def)

text \<open>
  C7.  For a dataset without depth axis the selection does not depend on the
  requested depth, the selected coordinates report NaN for depth, every row of
  the table carries a requested scalar depth as it was given, and a call with
  another depth returns the same selected coordinates and the same values.
  For a dataset with a depth axis the depth is passed as a slice or as a
  nearest-point selection like the other axes, and the selected coordinates
  report the depth labels of the selected array.
\<close>

theorem f_slice_depth:
  assumes "well_formed mode ds"
    and "f_slice reduction ds mode date long_lat depth has_depth = Inr (result, sel)"
  shows "(\<not> truthy has_depth \<longrightarrow>
            (\<forall>depth'. f_slice_values ds mode date long_lat depth' has_depth =
                        f_slice_values ds mode date long_lat depth has_depth)
          \<and> map_of sel ''depth'' = Some Nan_coord
          \<and> (\<forall>x df. depth = Point x \<and> result = Table df \<longrightarrow>
                list_all (\<lambda>r. cell r ''depth'' = Fl x) (df_rows df))
          \<and> (\<forall>depth' result' sel'.
                f_slice reduction ds mode date long_lat depth' has_depth = Inr (result', sel') \<longrightarrow>
                sel' = sel
                \<and> (case result of
                     Scalar m \<Rightarrow> result' = Scalar m
                   | Table df \<Rightarrow>
                       (\<exists>df'. result' = Table df'
                          \<and> map (\<lambda>r. cell r (da_name ds)) (df_rows df') =
                             map (\<lambda>r. cell r (da_name ds)) (df_rows df)))))
       \<and> (truthy has_depth \<longrightarrow>
            map_of (slice_coords_definition mode date long_lat depth has_depth) ''depth'' =
              (case depth of Span a b \<Rightarrow> Some (a, b) | Point x \<Rightarrow> None)
          \<and> map_of (noslice_coords_definition mode date long_lat depth has_depth) ''depth'' =
              (case depth of Span a b \<Rightarrow> None | Point x \<Rightarrow> Some x)
          \<and> (\<exists>vals. f_slice_values ds mode date long_lat depth has_depth = Inr vals
                \<and> map_of sel ''depth'' = Some (Arr (labels ''depth'' vals))))"
proof (intro conjI impI allI)
  from assms(2) obtain vals df where
    v: "f_slice_values ds mode date long_lat depth has_depth = Inr vals"
    and t: "f_slice_table vals mode depth has_depth = Inr df"
    and r: "f_slice_result reduction df = Inr result"
    and s: "selected_coordinates vals mode has_depth = Inr sel"
    by (rule f_slice_unfold)
  note C = f_slice_value_cells [OF assms(1) v t r]
  {
    assume "truthy has_depth"
    then show "map_of (slice_coords_definition mode date long_lat depth has_depth) ''depth'' =
              (case depth of Span a b \<Rightarrow> Some (a, b) | Point x \<Rightarrow> None)"
      and "map_of (noslice_coords_definition mode date long_lat depth has_depth) ''depth'' =
              (case depth of Span a b \<Rightarrow> None | Point x \<Rightarrow> Some x)"
      by (simp_all add: slice_coords_lookup noslice_coords_lookup)
    from \<open>truthy has_depth\<close> v selected_coordinates_depth [OF s]
    show "\<exists>vals. f_slice_values ds mode date long_lat depth has_depth = Inr vals
                \<and> map_of sel ''depth'' = Some (Arr (labels ''depth'' vals))"
      by simp
  }
  assume flat: "\<not> truthy has_depth"
  then show "f_slice_values ds mode date long_lat depth' has_depth =
      f_slice_values ds mode date long_lat depth has_depth" for depth'
    by (rule depthless_selection)
  from flat selected_coordinates_depth [OF s] show "map_of sel ''depth'' = Some Nan_coord"
    by simp
  {
    fix x df' assume "depth = Point x \<and> result = Table df'"
    with C(3) have x: "depth = Point x" and "df' = df" by (auto split: if_splits)
    have "list_all (\<lambda>r. cell r ''depth'' = Fl x) (df_rows df)"
      by (rule list_all2_list_all [OF f_slice_rows [OF assms(1) v t]]) (use flat x in simp)
    with \<open>df' = df\<close> show "list_all (\<lambda>r. cell r ''depth'' = Fl x) (df_rows df')" by simp
  }
  {
    fix depth' result' sel'
    assume "f_slice reduction ds mode date long_lat depth' has_depth = Inr (result', sel')"
    then obtain vals' df' where
      v': "f_slice_values ds mode date long_lat depth' has_depth = Inr vals'"
      and t': "f_slice_table vals' mode depth' has_depth = Inr df'"
      and r': "f_slice_result reduction df' = Inr result'"
      and s': "selected_coordinates vals' mode has_depth = Inr sel'"
      by (rule f_slice_unfold)
    from v v' depthless_selection [OF flat, of ds mode date long_lat depth' depth]
    have same: "vals' = vals" by simp
    with s s' show "sel' = sel" by simp
    note C' = f_slice_value_cells [OF assms(1) v' t' r']
    from C(2,3) C'(2,3) same
    show "case result of
            Scalar m \<Rightarrow> result' = Scalar m
          | Table df \<Rightarrow>
              (\<exists>df'. result' = Table df'
                 \<and> map (\<lambda>r. cell r (da_name ds)) (df_rows df') =
                    map (\<lambda>r. cell r (da_name ds)) (df_rows df))"
      by (cases "reduction = Some ''mean''") simp_all
  }
qed

theorem f_slice_depth_witness:
  "well_formed (PStr ''lon-lat'') sample_mlotst \<and> \<not> truthy (PBool False)
   \<and> f_slice None sample_mlotst (PStr ''lon-lat'') (Point 0) (Span 0 10, Point 40.2) (Point 7)
       (PBool False) =
     Inr (Table
           \<lparr>df_index = [''time'', ''longitude'', ''latitude'', ''depth''],
            df_columns = [''mlotst''],
            df_rows =
              [[(''time'', Fl 0), (''latitude'', Fl 40), (''longitude'', Fl 5), (''mlotst'', Fl 2),
                (''depth'', Fl 7)],
               [(''time'', Fl 0), (''latitude'', Fl 40), (''longitude'', Fl 8), (''mlotst'', NaN),
                (''depth'', Fl 7)]]\<rparr>,
          [(''time'', Arr [0]), (''lon'', Arr [5, 8]), (''lat'', Arr [40]), (''depth'', Nan_coord)])
   \<and> well_formed (PStr ''longitude-latitude'') sample_chl \<and> truthy (PBool True)
   \<and> f_slice None sample_chl (PStr ''longitude-latitude'') (Point 0) (Span 13.5 15, Point 43.5)
       (Point 8.3) (PBool True) =
     Inr (Table
           \<lparr>df_index = [''time'', ''longitude'', ''latitude'', ''depth''],
            df_columns = [''chl''],
            df_rows =
              [[(''time'', Fl 0), (''depth'', Fl 10), (''latitude'', Fl 43), (''longitude'', Fl 14),
                (''chl'', Fl 2)]]\<rparr>,
          [(''time'', Arr [0]), (''longitude'', Arr [14]), (''latitude'', Arr [43]),
           (''depth'', Arr [10])])"
proof -
  have flags: "\<not> truthy (PBool False)" "truthy (PBool True)" by simp_all
  from f_slice_depth [OF sample_well_formed sample_table] flags(1)
  have "map_of [(''time'', Arr [0]), (''lon'', Arr [5, 8]), (''lat'', Arr [40]),
      (''depth'', Nan_coord)] ''depth'' = Some Nan_coord"
    by blast
  moreover from f_slice_depth [OF sample_chl_well_formed sample_chl_table] flags(2)
  have "map_of (noslice_coords_definition (PStr ''longitude-latitude'') (Point 0)
      (Span 13.5 15, Point 43.5) (Point 8.3) (PBool True)) ''depth'' =
        (case Point 8.3 :: real arg of Span a b \<Rightarrow> None | Point x \<Rightarrow> Some x)"
    by blast
  ultimately show ?thesis
    using sample_well_formed sample_table sample_chl_well_formed sample_chl_table flags
    by simp
qed

text \<open>
  A call that returns has made a table with the index levels time, longitude,
  latitude and depth, whatever the slice mode, and one row for each point of
  the selected array, with the coordinates and the value of the point; the
  result is this table, or with the reduction \<^verbatim>\<open>"mean"\<close> the mean of the
  values of the selected points, the NaN values left out.
\<close>

lemma f_slice_table_shape:
  assumes "well_formed mode ds"
    and "f_slice reduction ds mode date long_lat depth has_depth = Inr (result, sel)"
  shows "\<exists>vals df.
      f_slice_values ds mode date long_lat depth has_depth = Inr vals
    \<and> f_slice_table vals mode depth has_depth = Inr df
    \<and> df_index df = [''time'', ''longitude'', ''latitude'', ''depth'']
    \<and> df_columns df = [da_name ds]
    \<and> list_all2 (\<lambda>r p. cell r ''time'' = coord_cell p ''time''
                     \<and> cell r ''longitude'' = coord_cell p (key_lon mode)
                     \<and> cell r ''latitude'' = coord_cell p (key_lat mode)
                     \<and> (truthy has_depth \<longrightarrow> cell r ''depth'' = coord_cell p ''depth'')
                     \<and> cell r (da_name ds) = snd p) (df_rows df) (da_points vals)
    \<and> result = (if reduction = Some ''mean''
                 then Scalar (mean_skipna (map snd (da_points vals))) else Table df)"
proof -
  from assms(2) obtain vals df where
    v: "f_slice_values ds mode date long_lat depth has_depth = Inr vals"
    and t: "f_slice_table vals mode depth has_depth = Inr df"
    and r: "f_slice_result reduction df = Inr result"
    by (rule f_slice_unfold)
  have "list_all2 (\<lambda>r p. cell r ''time'' = coord_cell p ''time''
                     \<and> cell r ''longitude'' = coord_cell p (key_lon mode)
                     \<and> cell r ''latitude'' = coord_cell p (key_lat mode)
                     \<and> (truthy has_depth \<longrightarrow> cell r ''depth'' = coord_cell p ''depth'')
                     \<and> cell r (da_name ds) = snd p) (df_rows df) (da_points vals)"
    by (rule list_all2_mono [OF f_slice_rows [OF assms(1) v t]]) simp
  with v t f_slice_table_rows(1) [OF t] f_slice_value_cells(1,3) [OF assms(1) v t r]
  show ?thesis by blast
qed

lemma f_slice_table_shape_sample:
  "well_formed (PStr ''lon-lat'') sample_mlotst
   \<and> f_slice None sample_mlotst (PStr ''lon-lat'') (Point 0) (Span 0 10, Point 40.2) (Point 7)
       (PBool False) =
     Inr (Table
           \<lparr>df_index = [''time'', ''longitude'', ''latitude'', ''depth''],
            df_columns = [''mlotst''],
            df_rows =
              [[(''time'', Fl 0), (''latitude'', Fl 40), (''longitude'', Fl 5), (''mlotst'', Fl 2),
                (''depth'', Fl 7)],
               [(''time'', Fl 0), (''latitude'', Fl 40), (''longitude'', Fl 8), (''mlotst'', NaN),
                (''depth'', Fl 7)]]\<rparr>,
          [(''time'', Arr [0]), (''lon'', Arr [5, 8]), (''lat'', Arr [40]), (''depth'', Nan_coord)])
   \<and> f_slice (Some ''mean'') sample_mlotst (PStr ''lon-lat'') (Point 0) (Span 0 10, Point 40.2)
       (Point 7) (PBool False) =
     Inr (Scalar (Fl 2),
          [(''time'', Arr [0]), (''lon'', Arr [5, 8]), (''lat'', Arr [40]), (''depth'', Nan_coord)])"
  using f_slice_table_shape [OF sample_well_formed sample_table]
        f_slice_table_shape [OF sample_well_formed sample_mean]
        sample_well_formed sample_table sample_mean
  by simp

text \<open>
  A query whose date, longitude, latitude and depth are all scalars selects the
  nearest label on every dimension; no dimension is left, \<^verbatim>\<open>to_dataframe\<close>
  refuses the array, and the call raises whatever the reduction is.
\<close>

lemma f_slice_all_scalar_raises:
  assumes dims: "set (da_dims ds) \<subseteq>
      {''time'', key_lon mode, key_lat mode} \<union> (if truthy has_depth then {''depth''} else {})"
  shows "\<exists>e. f_slice reduction ds mode (Point t) (Point x, Point y) (Point d) has_depth = Inl e"
proof (cases "f_slice_values ds mode (Point t) (Point x, Point y) (Point d) has_depth")
  case (Inl e)
  then show ?thesis by (simp add: f_slice_def)
next
  case (Inr vals)
  have sl: "slice_coords_definition mode (Point t) (Point x, Point y) (Point d) has_depth = []"
    by (simp add: slice_coords_definition_def)
  have ns: "fst ` set (noslice_coords_definition mode (Point t) (Point x, Point y) (Point d) has_depth) =
      {''time'', key_lon mode, key_lat mode} \<union> (if truthy has_depth then {''depth''} else {})"
    by (cases "truthy has_depth") (simp_all add: noslice_coords_definition_def insert_commute)
  from Inr have "sel_nearest (drop_duplicates ds)
      (noslice_coords_definition mode (Point t) (Point x, Point y) (Point d) has_depth) = Inr vals"
    by (simp add: f_slice_values_def sl)
  from sel_nearest_dims [OF this] have "set (da_dims vals) \<subseteq> set (da_dims ds) -
      ({''time'', key_lon mode, key_lat mode} \<union> (if truthy has_depth then {''depth''} else {}))"
    unfolding ns by (simp add: drop_duplicates_def)
  with dims have "set (da_dims vals) \<subseteq> {}" by blast
  then have "da_dims vals = []" by simp
  then have "to_dataframe vals = Inl (ValueError ''cannot convert a scalar'')"
    by (simp add: to_dataframe_def)
  with Inr show ?thesis by (simp add: f_slice_def f_slice_table_def)
qed

text \<open>
  C8.  The claim: for every query the selected slice becomes a table with one
  row for each sampled point, or its mean with the reduction \<^verbatim>\<open>"mean"\<close>.
  The code: on a point query, which is the query of
  \<^verbatim>\<open>examples/example-cmems-001.py\<close>, line 268 raises
  \<^verbatim>\<open>ValueError("cannot convert a scalar")\<close>, with or without depth axis and
  with or without reduction; no table and no mean is returned.
\<close>

theorem f_slice_point_query_raises:
  "f_slice None sample_chl (PStr ''longitude-latitude'') (Point 0) (Point 13, Point 43) (Point 1)
     (PBool True) = Inl (ValueError ''cannot convert a scalar'')
   \<and> f_slice (Some ''mean'') sample_mlotst (PStr ''lon-lat'') (Point 0)
       (Point (-2.95), Point 35.32) (Point 8.3) (PBool False) =
     Inl (ValueError ''cannot convert a scalar'')"
  by (simp add: f_slice_eval sample_chl_def sample_mlotst_def)

text \<open>
  C10.  With any reduction other than \<^verbatim>\<open>"mean"\<close> the slicer and the query
  return what they return with no reduction, and a result of the slicer is the
  table, not reduced.
\<close>

theorem f_slice_other_reduction:
  assumes "reduction \<noteq> Some ''mean''"
  shows "f_slice reduction ds mode date long_lat depth has_depth =
           f_slice None ds mode date long_lat depth has_depth
    \<and> get_value self w date long_lat depth what reduction =
        get_value self w date long_lat depth what None
    \<and> (\<forall>result sel. f_slice reduction ds mode date long_lat depth has_depth = Inr (result, sel)
          \<longrightarrow> (\<exists>vals df. f_slice_values ds mode date long_lat depth has_depth = Inr vals
                 \<and> f_slice_table vals mode depth has_depth = Inr df \<and> result = Table df))"
proof -
  from assms have res: "f_slice_result reduction df = Inr (Table df)"
    "f_slice_result None df = Inr (Table df)" for df
    by (simp_all add: f_slice_result_def)
  then have "f_slice_result reduction = f_slice_result None"
    by (intro ext) simp
  then have eq: "f_slice reduction = f_slice None"
    by (intro ext) (simp add: f_slice_def cong: sum.case_cong)
  have "\<exists>vals df. f_slice_values ds mode date long_lat depth has_depth = Inr vals
                 \<and> f_slice_table vals mode depth has_depth = Inr df \<and> result = Table df"
    if "f_slice reduction ds mode date long_lat depth has_depth = Inr (result, sel)" for result sel
    using f_slice_unfold [OF that] res by (metis Inr_inject)
  moreover have "get_value self w date long_lat depth what reduction =
      get_value self w date long_lat depth what None"
    unfolding get_value_def eq by (rule refl)
  ultimately show ?thesis using eq by simp
qed

theorem f_slice_other_reduction_witness:
  "Some ''max'' \<noteq> Some ''mean''
   \<and> f_slice (Some ''max'') sample_mlotst (PStr ''lon-lat'') (Point 0) (Span 0 10, Point 40.2)
       (Point 7) (PBool False) =
     Inr (Table
           \<lparr>df_index = [''time'', ''longitude'', ''latitude'', ''depth''],
            df_columns = [''mlotst''],
            df_rows =
              [[(''time'', Fl 0), (''latitude'', Fl 40), (''longitude'', Fl 5), (''mlotst'', Fl 2),
                (''depth'', Fl 7)],
               [(''time'', Fl 0), (''latitude'', Fl 40), (''longitude'', Fl 8), (''mlotst'', NaN),
                (''depth'', Fl 7)]]\<rparr>,
          [(''time'', Arr [0]), (''lon'', Arr [5, 8]), (''lat'', Arr [40]), (''depth'', Nan_coord)])
   \<and> get_value stub_accessor (stub_remote 0) (Point (mk_datetime 2012 9 22))
       (Span 13.53 13.73, Span 43.45 43.65) (Point 6) ''mixed-layer-thickness'' (Some ''max'') =
     get_value stub_accessor (stub_remote 0) (Point (mk_datetime 2012 9 22))
       (Span 13.53 13.73, Span 43.45 43.65) (Point 6) ''mixed-layer-thickness'' None"
proof -
  have ne: "Some ''max'' \<noteq> Some ''mean''" by simp
  from f_slice_other_reduction [OF ne, of sample_mlotst "PStr ''lon-lat''" "Point 0"
      "(Span 0 10, Point 40.2)" "Point 7" "PBool False" stub_accessor "stub_remote 0"
      "''mixed-layer-thickness''"]
    f_slice_other_reduction [OF ne, of sample_mlotst "PStr ''lon-lat''" "Point (mk_datetime 2012 9 22)"
      "(Span 13.53 13.73, Span 43.45 43.65)" "Point 6" "PBool False" stub_accessor "stub_remote 0"
      "''mixed-layer-thickness''"]
    sample_table
  show ?thesis by simp
qed

end
